theory Spec2Isabelle
  imports Complex_Main
begin

section \<open>Crank--Nicolson operator builder\<close>

text \<open>
  The two scripts \<^verbatim>\<open>ffdmk_2d1_adi2.py\<close> (ADI scheme) and \<^verbatim>\<open>ffdmk_2d1_fcn.py\<close>
  (Fourier/Crank--Nicolson scheme) build their tridiagonal operators from three
  diagonals. Arithmetic is exact: a NumPy complex array is a list of \<^typ>\<open>complex\<close>.
\<close>

datatype py_error = IndexError | ValueError

type_synonym diags = "complex list \<times> complex list \<times> complex list"

text \<open>\<^verbatim>\<open>d[0], d[-1] = a, b\<close> on a one-dimensional array: both indices raise on an empty array.\<close>

definition set_ends :: "complex list \<Rightarrow> complex \<Rightarrow> complex \<Rightarrow> py_error + complex list" where
  "set_ends d a b =
     (if d = [] then Inl IndexError else Inr ((d[0 := a])[length d - 1 := b]))"

text \<open>\<^verbatim>\<open>crank_nicolson_diags_r(n, pos, coor, coef)\<close> of the ADI script.\<close>

definition crank_nicolson_diags_r :: "nat \<Rightarrow> string \<Rightarrow> int \<Rightarrow> complex \<Rightarrow> py_error + diags" where
  "crank_nicolson_diags_r n pos coor coef =
     (let mcf = 1 + 2 * coef;
          ind = [1..<n - 1];
          diag_m1 = map (\<lambda>j. - coef * (1 - 0.5 * of_int coor / of_nat j)) ind;
          diag_0 = replicate n mcf;
          diag_p1 = map (\<lambda>j. - coef * (1 + 0.5 * of_int coor / of_nat j)) ind;
          diag_m1 = diag_m1 @ [0];
          diag_p1 = 0 # diag_p1
      in if coor = 0 \<and> pos = ''LEFT'' then
           (case set_ends diag_0 1 1 of Inl e \<Rightarrow> Inl e
            | Inr diag_0 \<Rightarrow> Inr (diag_m1, diag_0, diag_p1))
         else if coor = 0 \<and> pos = ''RIGHT'' then
           (case set_ends diag_0 0 0 of Inl e \<Rightarrow> Inl e
            | Inr diag_0 \<Rightarrow> Inr (diag_m1, diag_0, diag_p1))
         else if coor = 1 \<and> pos = ''LEFT'' then
           (case set_ends diag_0 mcf 1 of Inl e \<Rightarrow> Inl e
            | Inr diag_0 \<Rightarrow> Inr (diag_m1, diag_0, diag_p1[0 := - 2 * coef]))
         else if coor = 1 \<and> pos = ''RIGHT'' then
           (case set_ends diag_0 mcf 0 of Inl e \<Rightarrow> Inl e
            | Inr diag_0 \<Rightarrow> Inr (diag_m1, diag_0, diag_p1[0 := - 2 * coef]))
         else Inr (diag_m1, diag_0, diag_p1))"

text \<open>\<^verbatim>\<open>crank_nicolson_diags(n, pos, coor, coef)\<close> of the FCN script (the same body).\<close>

definition crank_nicolson_diags :: "nat \<Rightarrow> string \<Rightarrow> int \<Rightarrow> complex \<Rightarrow> py_error + diags" where
  "crank_nicolson_diags n pos coor coef =
     (let mcf = 1 + 2 * coef;
          ind = [1..<n - 1];
          diag_m1 = map (\<lambda>j. - coef * (1 - 0.5 * of_int coor / of_nat j)) ind;
          diag_0 = replicate n mcf;
          diag_p1 = map (\<lambda>j. - coef * (1 + 0.5 * of_int coor / of_nat j)) ind;
          diag_m1 = diag_m1 @ [0];
          diag_p1 = 0 # diag_p1
      in if coor = 0 \<and> pos = ''LEFT'' then
           (case set_ends diag_0 1 1 of Inl e \<Rightarrow> Inl e
            | Inr diag_0 \<Rightarrow> Inr (diag_m1, diag_0, diag_p1))
         else if coor = 0 \<and> pos = ''RIGHT'' then
           (case set_ends diag_0 0 0 of Inl e \<Rightarrow> Inl e
            | Inr diag_0 \<Rightarrow> Inr (diag_m1, diag_0, diag_p1))
         else if coor = 1 \<and> pos = ''LEFT'' then
           (case set_ends diag_0 mcf 1 of Inl e \<Rightarrow> Inl e
            | Inr diag_0 \<Rightarrow> Inr (diag_m1, diag_0, diag_p1[0 := - 2 * coef]))
         else if coor = 1 \<and> pos = ''RIGHT'' then
           (case set_ends diag_0 mcf 0 of Inl e \<Rightarrow> Inl e
            | Inr diag_0 \<Rightarrow> Inr (diag_m1, diag_0, diag_p1[0 := - 2 * coef]))
         else Inr (diag_m1, diag_0, diag_p1))"

text \<open>
  \<^verbatim>\<open>crank_nicolson_diags_t(n, pos, coef)\<close>: \<^verbatim>\<open>np.full(n - 1, ...)\<close> raises for \<open>n = 0\<close>
  (negative dimension) and \<^verbatim>\<open>diag_p1[0]\<close> raises for \<open>n = 1\<close> (empty array).
\<close>

definition crank_nicolson_diags_t :: "nat \<Rightarrow> string \<Rightarrow> complex \<Rightarrow> py_error + diags" where
  "crank_nicolson_diags_t n pos coef =
     (if n = 0 then Inl ValueError
      else if n = 1 then Inl IndexError
      else
        let mcf = 1 + 2 * coef;
            diag_m1 = replicate (n - 1) (- coef);
            diag_0 = replicate n mcf;
            diag_p1 = replicate (n - 1) (- coef);
            diag_p1 = diag_p1[0 := 0];
            diag_m1 = diag_m1[length diag_m1 - 1 := 0]
        in if pos = ''LEFT'' then
             (case set_ends diag_0 1 1 of Inl e \<Rightarrow> Inl e
              | Inr diag_0 \<Rightarrow> Inr (diag_m1, diag_0, diag_p1))
           else if pos = ''RIGHT'' then
             (case set_ends diag_0 0 0 of Inl e \<Rightarrow> Inl e
              | Inr diag_0 \<Rightarrow> Inr (diag_m1, diag_0, diag_p1))
           else Inr (diag_m1, diag_0, diag_p1))"

text \<open>
  \<^verbatim>\<open>diags_array([diag_m1, diag_0, diag_p1], offsets=[-1, 0, 1])\<close>: entry \<open>j\<close> of the lower
  diagonal sits at row \<open>j + 1\<close>, column \<open>j\<close>; entry \<open>j\<close> of the upper diagonal at row \<open>j\<close>,
  column \<open>j + 1\<close>. \<open>entry ds i j\<close> is the matrix element at row \<open>i\<close>, column \<open>j\<close>.
\<close>

definition entry :: "diags \<Rightarrow> nat \<Rightarrow> nat \<Rightarrow> complex" where
  "entry ds i j =
     (case ds of (diag_m1, diag_0, diag_p1) \<Rightarrow>
        if j = i then diag_0 ! i
        else if Suc j = i then diag_m1 ! j
        else if j = Suc i then diag_p1 ! i
        else 0)"


section \<open>Arrays\<close>

text \<open>
  A NumPy array is a function from its indices to its elements together with its extents,
  which the scripts fix once (\<^verbatim>\<open>N_RADI_NODES\<close>, \<^verbatim>\<open>N_TIME_NODES\<close>, \<^verbatim>\<open>N_STEPS + 1\<close>).
  Reading a slice yields a vector that is zero outside the extent; writing a slice changes
  the elements inside the extent only. The scripts index the field as \<^verbatim>\<open>[i, l]\<close> with
  \<open>i\<close> the radial and \<open>l\<close> the time node, and the scratch arrays as \<^verbatim>\<open>[i, l, p]\<close>.
\<close>

type_synonym vec = "nat \<Rightarrow> complex"
type_synonym mat = "nat \<Rightarrow> nat \<Rightarrow> complex"
type_synonym cube = "nat \<Rightarrow> nat \<Rightarrow> nat \<Rightarrow> complex"

definition row :: "nat \<Rightarrow> mat \<Rightarrow> nat \<Rightarrow> vec" where
  \<comment> \<open>\<^verbatim>\<open>m[i, :]\<close> with \<open>n\<close> columns\<close>
  "row n m i = (\<lambda>l. if l < n then m i l else 0)"

definition col :: "nat \<Rightarrow> mat \<Rightarrow> nat \<Rightarrow> vec" where
  \<comment> \<open>\<^verbatim>\<open>m[:, l]\<close> with \<open>n\<close> rows\<close>
  "col n m l = (\<lambda>i. if i < n then m i l else 0)"

definition put_row :: "nat \<Rightarrow> mat \<Rightarrow> nat \<Rightarrow> vec \<Rightarrow> mat" where
  \<comment> \<open>\<^verbatim>\<open>m[i, :] = v\<close>\<close>
  "put_row n m i v = (\<lambda>i' l. if i' = i \<and> l < n then v l else m i' l)"

definition put_col :: "nat \<Rightarrow> mat \<Rightarrow> nat \<Rightarrow> vec \<Rightarrow> mat" where
  \<comment> \<open>\<^verbatim>\<open>m[:, l] = v\<close>\<close>
  "put_col n m l v = (\<lambda>i l'. if l' = l \<and> i < n then v i else m i l')"

definition put_elem :: "mat \<Rightarrow> nat \<Rightarrow> nat \<Rightarrow> complex \<Rightarrow> mat" where
  \<comment> \<open>\<^verbatim>\<open>m[k, l] = x\<close>\<close>
  "put_elem m k l x = (\<lambda>k' l'. if k' = k \<and> l' = l then x else m k' l')"

definition put_row3 :: "nat \<Rightarrow> cube \<Rightarrow> nat \<Rightarrow> nat \<Rightarrow> vec \<Rightarrow> cube" where
  \<comment> \<open>\<^verbatim>\<open>d[i, :, p] = v\<close>\<close>
  "put_row3 n d i p v = (\<lambda>i' l p'. if i' = i \<and> p' = p \<and> l < n then v l else d i' l p')"

definition put_col3 :: "nat \<Rightarrow> cube \<Rightarrow> nat \<Rightarrow> nat \<Rightarrow> vec \<Rightarrow> cube" where
  \<comment> \<open>\<^verbatim>\<open>d[:, l, p] = v\<close>\<close>
  "put_col3 n d l p v = (\<lambda>i l' p'. if l' = l \<and> p' = p \<and> i < n then v i else d i l' p')"

definition rotate_history :: "nat \<Rightarrow> nat \<Rightarrow> cube \<Rightarrow> cube" where
  \<comment> \<open>\<^verbatim>\<open>w_array[:, :, 0] = w_array[:, :, 1]\<close>\<close>
  "rotate_history nr nt w =
     (\<lambda>i l p. if p = 0 \<and> i < nr \<and> l < nt then w i l 1 else w i l p)"

text \<open>
  \<^verbatim>\<open>A @ v\<close> for the sparse \<open>n \<times> n\<close> array \<open>A\<close> built by \<^verbatim>\<open>diags_array\<close> and a vector of \<open>n\<close>
  elements: the matrix--vector product.
\<close>

definition matvec :: "diags \<Rightarrow> nat \<Rightarrow> vec \<Rightarrow> vec" where
  "matvec A n v = (\<lambda>i. if i < n then (\<Sum>j<n. entry A i j * v j) else 0)"

text \<open>
  \<^verbatim>\<open>scipy.sparse.linalg.spsolve\<close> is a library routine; the engine is modelled for any
  function of this type in its place. \<open>tdma\<close> below is the direct elimination for a
  tridiagonal system without pivoting, used where a concrete run is evaluated.
\<close>

type_synonym solver = "diags \<Rightarrow> nat \<Rightarrow> vec \<Rightarrow> vec"

fun tdma_c :: "diags \<Rightarrow> nat \<Rightarrow> complex" where
  "tdma_c A 0 = entry A 0 1 / entry A 0 0"
| "tdma_c A (Suc i) =
     entry A (Suc i) (Suc (Suc i)) / (entry A (Suc i) (Suc i) - entry A (Suc i) i * tdma_c A i)"

fun tdma_d :: "diags \<Rightarrow> vec \<Rightarrow> nat \<Rightarrow> complex" where
  "tdma_d A f 0 = f 0 / entry A 0 0"
| "tdma_d A f (Suc i) =
     (f (Suc i) - entry A (Suc i) i * tdma_d A f i)
       / (entry A (Suc i) (Suc i) - entry A (Suc i) i * tdma_c A i)"

fun tdma_back :: "diags \<Rightarrow> vec \<Rightarrow> nat \<Rightarrow> nat \<Rightarrow> complex" where
  \<comment> \<open>\<open>tdma_back A f i m\<close> is the unknown \<open>i\<close> when \<open>m\<close> unknowns follow it\<close>
  "tdma_back A f i 0 = tdma_d A f i"
| "tdma_back A f i (Suc m) = tdma_d A f i - tdma_c A i * tdma_back A f (Suc i) m"

definition tdma :: solver where
  "tdma A n f = (\<lambda>i. if i < n then tdma_back A f i (n - 1 - i) else 0)"

section \<open>Configuration and nonlinear source\<close>

text \<open>
  The constants both scripts derive before the loop (medium, beam and grid set-up) are
  the fields of \<open>config\<close>; the initial field is any array of the field's shape.
\<close>

record config =
  N_RADI_NODES :: nat
  N_TIME_NODES :: nat
  N_STEPS :: nat
  AXIS_NODE :: nat
  EU_CYL :: int
  DIST_STEP_LEN :: real
  TIME_STEP_LEN :: real
  DELTA_R :: real
  DELTA_T :: real
  KERR_COEF :: complex
  MPA_COEF :: complex
  MPA_EXP :: nat

definition G :: complex where
  "G = 1.0"

text \<open>
  The expression \<^verbatim>\<open>DIST_STEP_LEN * (KERR_COEF * d1 + MPA_COEF * d2) * d0\<close> that fills
  \<^verbatim>\<open>w_array\<close>, and the same as a function of the field value \<open>z\<close> alone, with
  \<open>d1 = |z|\<^sup>2\<close> and \<open>d2 = |z|\<close> to the power \<^verbatim>\<open>MPA_EXP\<close>.
\<close>

definition nlin :: "config \<Rightarrow> complex \<Rightarrow> complex \<Rightarrow> complex \<Rightarrow> complex" where
  "nlin cfg d1 d2 d0 =
     of_real (DIST_STEP_LEN cfg) * (KERR_COEF cfg * d1 + MPA_COEF cfg * d2) * d0"

definition source :: "config \<Rightarrow> complex \<Rightarrow> complex" where
  "source cfg z = nlin cfg (of_real ((cmod z) ^ 2)) (of_real ((cmod z) ^ MPA_EXP cfg)) z"

text \<open>
  Both scripts fill the three planes of a scratch array for one grid line with the same
  three statements (the line itself, its squared modulus, its modulus to the power
  \<^verbatim>\<open>MPA_EXP\<close>), and fill one plane of \<^verbatim>\<open>w_array\<close> for that line from them. \<open>load_col3\<close> and
  \<open>source_col3\<close> are these statements for a line \<^verbatim>\<open>[:, l, p]\<close>, \<open>load_row3\<close> and
  \<open>source_row3\<close> for a line \<^verbatim>\<open>[i, :, p]\<close>.
\<close>

definition load_col3 :: "config \<Rightarrow> nat \<Rightarrow> cube \<Rightarrow> nat \<Rightarrow> vec \<Rightarrow> cube" where
  "load_col3 cfg n d l v =
     (let d0 = put_col3 n d l 0 v;
          d1 = put_col3 n d0 l 1 (\<lambda>i. of_real ((cmod (d0 i l 0)) ^ 2))
      in put_col3 n d1 l 2 (\<lambda>i. of_real ((cmod (d1 i l 0)) ^ MPA_EXP cfg)))"

definition source_col3 :: "config \<Rightarrow> nat \<Rightarrow> cube \<Rightarrow> cube \<Rightarrow> nat \<Rightarrow> nat \<Rightarrow> cube" where
  "source_col3 cfg n w d l p = put_col3 n w l p (\<lambda>i. nlin cfg (d i l 1) (d i l 2) (d i l 0))"

definition load_row3 :: "config \<Rightarrow> nat \<Rightarrow> cube \<Rightarrow> nat \<Rightarrow> vec \<Rightarrow> cube" where
  "load_row3 cfg n d i v =
     (let d0 = put_row3 n d i 0 v;
          d1 = put_row3 n d0 i 1 (\<lambda>l. of_real ((cmod (d0 i l 0)) ^ 2))
      in put_row3 n d1 i 2 (\<lambda>l. of_real ((cmod (d1 i l 0)) ^ MPA_EXP cfg)))"

definition source_row3 :: "config \<Rightarrow> nat \<Rightarrow> cube \<Rightarrow> cube \<Rightarrow> nat \<Rightarrow> nat \<Rightarrow> cube" where
  "source_row3 cfg n w d i p = put_row3 n w i p (\<lambda>l. nlin cfg (d i l 1) (d i l 2) (d i l 0))"


section \<open>ADI scheme\<close>

text \<open>
  The name \<^verbatim>\<open>envelope\<close> is bound to the array returned by \<^verbatim>\<open>initial_condition\<close> until the
  end of the first propagation step, where \<^verbatim>\<open>envelope = envelope_store\<close> binds it to the
  array \<^verbatim>\<open>envelope_store\<close> itself: from then on both names denote one array.
\<close>

datatype array_ref = InitialArray | StoreArray

record adi_state =
  initial_array :: mat
  envelope_store :: mat
  envelope :: array_ref
  envelope_axis :: mat
  b_array :: mat
  c_array :: mat
  d_array :: cube
  f_array :: mat
  w_array :: cube

definition adi_envelope :: "adi_state \<Rightarrow> mat" where
  "adi_envelope s = (case envelope s of InitialArray \<Rightarrow> initial_array s | StoreArray \<Rightarrow> envelope_store s)"

record adi_operators =
  left_cn_matrix_r :: diags
  right_cn_matrix_r :: diags
  left_cn_matrix_t :: diags
  right_cn_matrix_t :: diags

text \<open>Lines 280--285: the four operators, \<^verbatim>\<open>MAT_CNT_1R = IM_UNIT * DELTA_R\<close> and so on.\<close>

definition adi_build :: "config \<Rightarrow> py_error + adi_operators" where
  "adi_build cfg =
     (let MAT_CNT_1R = \<i> * of_real (DELTA_R cfg);
          MAT_CNT_1T = \<i> * of_real (DELTA_T cfg)
      in case crank_nicolson_diags_r (N_RADI_NODES cfg) ''LEFT'' (EU_CYL cfg) MAT_CNT_1R of
           Inl e \<Rightarrow> Inl e
         | Inr lr \<Rightarrow>
        (case crank_nicolson_diags_r (N_RADI_NODES cfg) ''RIGHT'' (EU_CYL cfg) (- MAT_CNT_1R) of
           Inl e \<Rightarrow> Inl e
         | Inr rr \<Rightarrow>
        (case crank_nicolson_diags_t (N_TIME_NODES cfg) ''LEFT'' MAT_CNT_1T of
           Inl e \<Rightarrow> Inl e
         | Inr lt \<Rightarrow>
        (case crank_nicolson_diags_t (N_TIME_NODES cfg) ''RIGHT'' (- MAT_CNT_1T) of
           Inl e \<Rightarrow> Inl e
         | Inr rt \<Rightarrow>
             Inr \<lparr>left_cn_matrix_r = lr, right_cn_matrix_r = rr,
                  left_cn_matrix_t = lt, right_cn_matrix_t = rt\<rparr>))))"

text \<open>
  Lines 287--290. \<open>mem\<close> holds the arrays as \<^verbatim>\<open>np.empty\<close> allocated them, with arbitrary
  contents; \<open>ini\<close> is the array \<^verbatim>\<open>initial_condition\<close> returns.
\<close>

definition adi_init :: "config \<Rightarrow> mat \<Rightarrow> adi_state \<Rightarrow> adi_state" where
  "adi_init cfg ini mem =
     (let s = mem\<lparr>initial_array := ini, envelope := InitialArray\<rparr>
      in s\<lparr>envelope_axis :=
             put_row (N_TIME_NODES cfg) (envelope_axis s) 0
               (row (N_TIME_NODES cfg) (adi_envelope s) (AXIS_NODE cfg))\<rparr>)"

text \<open>Lines 296--297, one iteration of the loop over \<open>i\<close>.\<close>

definition adi_rhs1_body :: "config \<Rightarrow> adi_operators \<Rightarrow> nat \<Rightarrow> adi_state \<Rightarrow> adi_state" where
  "adi_rhs1_body cfg ops i s =
     s\<lparr>b_array := put_row (N_TIME_NODES cfg) (b_array s) i
          (matvec (right_cn_matrix_t ops) (N_TIME_NODES cfg)
             (row (N_TIME_NODES cfg) (adi_envelope s) i))\<rparr>"

text \<open>Lines 300--340, one iteration of the loop over \<open>l\<close> in propagation step \<open>k\<close>.\<close>

definition adi_half1_body ::
  "config \<Rightarrow> solver \<Rightarrow> adi_operators \<Rightarrow> nat \<Rightarrow> nat \<Rightarrow> adi_state \<Rightarrow> adi_state" where
  "adi_half1_body cfg spsolve ops k l s0 =
     (let n = N_RADI_NODES cfg;
          s1 = s0\<lparr>d_array := load_col3 cfg n (d_array s0) l (col n (adi_envelope s0) l)\<rparr>;
          s2 = (if k = 0 then
                  (let t1 = s1\<lparr>w_array := source_col3 cfg n (w_array s1) (d_array s1) l 0\<rparr>;
                       t2 = t1\<lparr>d_array := load_col3 cfg n (d_array t1) l (\<lambda>i. G * d_array t1 i l 0)\<rparr>;
                       t3 = t2\<lparr>w_array := source_col3 cfg n (w_array t2) (d_array t2) l 1\<rparr>
                   in t3\<lparr>envelope_axis :=
                          put_elem (envelope_axis t3) (k + 1) l (d_array t3 (AXIS_NODE cfg) l 0)\<rparr>)
                else
                  s1\<lparr>w_array := source_col3 cfg n (w_array s1) (d_array s1) l 1\<rparr>);
          s3 = s2\<lparr>f_array := put_col n (f_array s2) l
                 (\<lambda>i. b_array s2 i l + 0.25 * (3 * w_array s2 i l 1 - w_array s2 i l 0))\<rparr>
      in s3\<lparr>c_array := put_col n (c_array s3) l
              (spsolve (left_cn_matrix_r ops) n (col n (f_array s3) l))\<rparr>)"

text \<open>Lines 347--348, one iteration of the loop over \<open>l\<close>.\<close>

definition adi_rhs2_body :: "config \<Rightarrow> adi_operators \<Rightarrow> nat \<Rightarrow> adi_state \<Rightarrow> adi_state" where
  "adi_rhs2_body cfg ops l s =
     s\<lparr>b_array := put_col (N_RADI_NODES cfg) (b_array s) l
          (matvec (right_cn_matrix_r ops) (N_RADI_NODES cfg)
             (col (N_RADI_NODES cfg) (c_array s) l))\<rparr>"

text \<open>
  Lines 351--384, one iteration of the loop over \<open>i\<close> in propagation step \<open>k\<close>. In the
  branch \<open>k = 0\<close> the source assigns \<^verbatim>\<open>w_array[i, :, 0]\<close> only (lines 356--363) and
  reloads the scratch planes (lines 364--367).
\<close>

definition adi_half2_body ::
  "config \<Rightarrow> solver \<Rightarrow> adi_operators \<Rightarrow> nat \<Rightarrow> nat \<Rightarrow> adi_state \<Rightarrow> adi_state" where
  "adi_half2_body cfg spsolve ops k i s0 =
     (let n = N_TIME_NODES cfg;
          s1 = s0\<lparr>d_array := load_row3 cfg n (d_array s0) i (row n (c_array s0) i)\<rparr>;
          s2 = (if k = 0 then
                  (let t1 = s1\<lparr>w_array := source_row3 cfg n (w_array s1) (d_array s1) i 0\<rparr>;
                       t2 = t1\<lparr>d_array := load_row3 cfg n (d_array t1) i (\<lambda>l. G * d_array t1 i l 0)\<rparr>
                   in if i = AXIS_NODE cfg then
                        t2\<lparr>envelope_axis :=
                             put_row n (envelope_axis t2) (k + 1) (\<lambda>l. d_array t2 i l 0)\<rparr>
                      else t2)
                else
                  s1\<lparr>w_array := source_row3 cfg n (w_array s1) (d_array s1) i 1\<rparr>);
          s3 = s2\<lparr>f_array := put_row n (f_array s2) i
                 (\<lambda>l. b_array s2 i l + 0.25 * (3 * w_array s2 i l 1 - w_array s2 i l 0))\<rparr>
      in s3\<lparr>envelope_store := put_row n (envelope_store s3) i
              (spsolve (left_cn_matrix_t ops) n (row n (f_array s3) i))\<rparr>)"

text \<open>The first half-step (lines 294--343) and the second (lines 345--384).\<close>

definition adi_half1 :: "config \<Rightarrow> solver \<Rightarrow> adi_operators \<Rightarrow> nat \<Rightarrow> adi_state \<Rightarrow> adi_state" where
  "adi_half1 cfg spsolve ops k s =
     fold (adi_half1_body cfg spsolve ops k) [0..<N_TIME_NODES cfg]
       (fold (adi_rhs1_body cfg ops) [0..<N_RADI_NODES cfg] s)"

definition adi_half2 :: "config \<Rightarrow> solver \<Rightarrow> adi_operators \<Rightarrow> nat \<Rightarrow> adi_state \<Rightarrow> adi_state" where
  "adi_half2 cfg spsolve ops k s =
     fold (adi_half2_body cfg spsolve ops k) [0..<N_RADI_NODES cfg]
       (fold (adi_rhs2_body cfg ops) [0..<N_TIME_NODES cfg] s)"

definition adi_rotate :: "config \<Rightarrow> adi_state \<Rightarrow> adi_state" where
  "adi_rotate cfg s =
     s\<lparr>w_array := rotate_history (N_RADI_NODES cfg) (N_TIME_NODES cfg) (w_array s)\<rparr>"

text \<open>Lines 386--389: the end of propagation step \<open>k\<close>.\<close>

definition adi_commit :: "config \<Rightarrow> nat \<Rightarrow> adi_state \<Rightarrow> adi_state" where
  "adi_commit cfg k s =
     (let s1 = adi_rotate cfg s;
          s2 = s1\<lparr>envelope := StoreArray\<rparr>
      in s2\<lparr>envelope_axis :=
              put_row (N_TIME_NODES cfg) (envelope_axis s2) (k + 1)
                (row (N_TIME_NODES cfg) (envelope_store s2) (AXIS_NODE cfg))\<rparr>)"

text \<open>The body of the propagation loop (lines 293--389) for step \<open>k\<close>.\<close>

definition adi_step :: "config \<Rightarrow> solver \<Rightarrow> adi_operators \<Rightarrow> nat \<Rightarrow> adi_state \<Rightarrow> adi_state" where
  "adi_step cfg spsolve ops k s =
     adi_commit cfg k
       (adi_half2 cfg spsolve ops k (adi_rotate cfg (adi_half1 cfg spsolve ops k s)))"

text \<open>
  \<^verbatim>\<open>for k in range(N_STEPS)\<close>. \<open>adi_loop cfg spsolve ops m s\<close> runs the iterations
  \<open>k = 0, \<dots>, m - 1\<close>; \<open>adi_propagate\<close> is the whole loop.
\<close>

definition adi_loop :: "config \<Rightarrow> solver \<Rightarrow> adi_operators \<Rightarrow> nat \<Rightarrow> adi_state \<Rightarrow> adi_state" where
  "adi_loop cfg spsolve ops m s = fold (adi_step cfg spsolve ops) [0..<m] s"




section \<open>Fourier/Crank--Nicolson scheme\<close>

text \<open>
  \<^verbatim>\<open>numpy.fft.fft\<close> and \<^verbatim>\<open>numpy.fft.ifft\<close> on \<open>n\<close> points: the discrete Fourier transform
  and its inverse, with the factor \<open>1 / n\<close> in the inverse.
\<close>

definition fft :: "nat \<Rightarrow> vec \<Rightarrow> vec" where
  "fft n x = (\<lambda>m. if m < n then (\<Sum>j<n. x j * cis (- (2 * pi * real j * real m / real n))) else 0)"

definition ifft :: "nat \<Rightarrow> vec \<Rightarrow> vec" where
  "ifft n y =
     (\<lambda>j. if j < n then (\<Sum>m<n. y m * cis (2 * pi * real j * real m / real n)) / of_nat n else 0)"

text \<open>\<^verbatim>\<open>np.linspace(start, stop, num)[j]\<close>.\<close>

definition linspace :: "real \<Rightarrow> real \<Rightarrow> nat \<Rightarrow> nat \<Rightarrow> real" where
  "linspace start stop num j =
     (if num = 1 then start else start + real j * ((stop - start) / real (num - 1)))"

text \<open>Lines 213--223: the angular frequency grid, \<^verbatim>\<open>frq_array = np.append(w1, w2)\<close>.\<close>

definition FRQ_STEP_LEN :: "config \<Rightarrow> real" where
  "FRQ_STEP_LEN cfg = 2 * pi / (real (N_TIME_NODES cfg) * TIME_STEP_LEN cfg)"

definition frq_array :: "config \<Rightarrow> nat \<Rightarrow> real" where
  "frq_array cfg m =
     (let INI_FRQ_COOR_W1 = 0;
          FIN_FRQ_COOR_W1 = pi / TIME_STEP_LEN cfg - FRQ_STEP_LEN cfg;
          INI_FRQ_COOR_W2 = - pi / TIME_STEP_LEN cfg;
          FIN_FRQ_COOR_W2 = - FRQ_STEP_LEN cfg;
          h = N_TIME_NODES cfg div 2
      in if m < h then linspace INI_FRQ_COOR_W1 FIN_FRQ_COOR_W1 h m
         else linspace INI_FRQ_COOR_W2 FIN_FRQ_COOR_W2 h (m - h))"

text \<open>Line 236.\<close>

definition fourier_coeff :: "config \<Rightarrow> vec" where
  "fourier_coeff cfg =
     (\<lambda>m. exp (- 2 * \<i> * of_real (DELTA_T cfg) * of_real ((frq_array cfg m * TIME_STEP_LEN cfg) ^ 2)))"

record fcn_state =
  initial_array :: mat
  envelope_store :: mat
  envelope :: array_ref
  envelope_axis :: mat
  envelope_fourier :: vec
  b_array :: mat
  c_array :: cube
  d_array :: vec
  f_array :: vec
  w_array :: cube

definition fcn_envelope :: "fcn_state \<Rightarrow> mat" where
  "fcn_envelope s =
     (case fcn_state.envelope s of
        InitialArray \<Rightarrow> fcn_state.initial_array s
      | StoreArray \<Rightarrow> fcn_state.envelope_store s)"

record fcn_operators =
  left_cn_matrix :: diags
  right_cn_matrix :: diags

text \<open>Lines 244--246.\<close>

definition fcn_build :: "config \<Rightarrow> py_error + fcn_operators" where
  "fcn_build cfg =
     (let MATRIX_CNT_1 = \<i> * of_real (DELTA_R cfg)
      in case crank_nicolson_diags (N_RADI_NODES cfg) ''LEFT'' (EU_CYL cfg) MATRIX_CNT_1 of
           Inl e \<Rightarrow> Inl e
         | Inr l \<Rightarrow>
        (case crank_nicolson_diags (N_RADI_NODES cfg) ''RIGHT'' (EU_CYL cfg) (- MATRIX_CNT_1) of
           Inl e \<Rightarrow> Inl e
         | Inr r \<Rightarrow> Inr \<lparr>left_cn_matrix = l, right_cn_matrix = r\<rparr>))"

text \<open>Lines 248--251.\<close>

definition fcn_init :: "config \<Rightarrow> mat \<Rightarrow> fcn_state \<Rightarrow> fcn_state" where
  "fcn_init cfg ini mem =
     (let s = mem\<lparr>fcn_state.initial_array := ini, fcn_state.envelope := InitialArray\<rparr>
      in s\<lparr>fcn_state.envelope_axis :=
             put_row (N_TIME_NODES cfg) (fcn_state.envelope_axis s) 0
               (row (N_TIME_NODES cfg) (fcn_envelope s) (AXIS_NODE cfg))\<rparr>)"

text \<open>Lines 256--259, one iteration of the loop over \<open>i\<close>.\<close>

definition fcn_half1_body :: "config \<Rightarrow> nat \<Rightarrow> fcn_state \<Rightarrow> fcn_state" where
  "fcn_half1_body cfg i s0 =
     (let n = N_TIME_NODES cfg;
          s1 = s0\<lparr>envelope_fourier :=
                 (\<lambda>m. if m < n then fourier_coeff cfg m * fft n (row n (fcn_envelope s0) i) m else 0)\<rparr>
      in s1\<lparr>fcn_state.b_array :=
              put_row n (fcn_state.b_array s1) i (ifft n (envelope_fourier s1))\<rparr>)"

text \<open>Lines 262--303, one iteration of the loop over \<open>l\<close> in propagation step \<open>k\<close>.\<close>

definition fcn_half2_body ::
  "config \<Rightarrow> solver \<Rightarrow> fcn_operators \<Rightarrow> nat \<Rightarrow> nat \<Rightarrow> fcn_state \<Rightarrow> fcn_state" where
  "fcn_half2_body cfg spsolve ops k l s0 =
     (let n = N_RADI_NODES cfg;
          s1 = s0\<lparr>fcn_state.c_array :=
                 load_col3 cfg n (fcn_state.c_array s0) l (col n (fcn_state.b_array s0) l)\<rparr>;
          s2 = (if k = 0 then
                  (let t1 = s1\<lparr>fcn_state.w_array :=
                              source_col3 cfg n (fcn_state.w_array s1) (fcn_state.c_array s1) l 0\<rparr>;
                       t2 = t1\<lparr>fcn_state.c_array :=
                              load_col3 cfg n (fcn_state.c_array t1) l
                                (\<lambda>i. G * fcn_state.c_array t1 i l 0)\<rparr>;
                       t3 = t2\<lparr>fcn_state.w_array :=
                              source_col3 cfg n (fcn_state.w_array t2) (fcn_state.c_array t2) l 1\<rparr>
                   in t3\<lparr>fcn_state.envelope_axis :=
                          put_elem (fcn_state.envelope_axis t3) (k + 1) l
                            (fcn_state.c_array t3 (AXIS_NODE cfg) l 0)\<rparr>)
                else
                  s1\<lparr>fcn_state.w_array :=
                       source_col3 cfg n (fcn_state.w_array s1) (fcn_state.c_array s1) l 1\<rparr>);
          s3 = s2\<lparr>fcn_state.d_array :=
                 matvec (right_cn_matrix ops) n (\<lambda>i. if i < n then fcn_state.c_array s2 i l 0 else 0)\<rparr>;
          s4 = s3\<lparr>fcn_state.f_array :=
                 (\<lambda>i. if i < n
                       then fcn_state.d_array s3 i
                            + 0.5 * (3 * fcn_state.w_array s3 i l 1 - fcn_state.w_array s3 i l 0)
                       else 0)\<rparr>
      in s4\<lparr>fcn_state.envelope_store := put_col n (fcn_state.envelope_store s4) l
              (spsolve (left_cn_matrix ops) n (fcn_state.f_array s4))\<rparr>)"

definition fcn_half1 :: "config \<Rightarrow> fcn_state \<Rightarrow> fcn_state" where
  "fcn_half1 cfg s = fold (fcn_half1_body cfg) [0..<N_RADI_NODES cfg] s"

definition fcn_half2 :: "config \<Rightarrow> solver \<Rightarrow> fcn_operators \<Rightarrow> nat \<Rightarrow> fcn_state \<Rightarrow> fcn_state" where
  "fcn_half2 cfg spsolve ops k s =
     fold (fcn_half2_body cfg spsolve ops k) [0..<N_TIME_NODES cfg] s"

text \<open>Lines 305--308: the end of iteration \<open>k\<close>, which writes row \<open>k + 2\<close> of the trace.\<close>

definition fcn_commit :: "config \<Rightarrow> nat \<Rightarrow> fcn_state \<Rightarrow> fcn_state" where
  "fcn_commit cfg k s =
     (let s1 = s\<lparr>fcn_state.w_array :=
                 rotate_history (N_RADI_NODES cfg) (N_TIME_NODES cfg) (fcn_state.w_array s)\<rparr>;
          s2 = s1\<lparr>fcn_state.envelope := StoreArray\<rparr>
      in s2\<lparr>fcn_state.envelope_axis :=
              put_row (N_TIME_NODES cfg) (fcn_state.envelope_axis s2) (k + 2)
                (row (N_TIME_NODES cfg) (fcn_state.envelope_store s2) (AXIS_NODE cfg))\<rparr>)"

definition fcn_step :: "config \<Rightarrow> solver \<Rightarrow> fcn_operators \<Rightarrow> nat \<Rightarrow> fcn_state \<Rightarrow> fcn_state" where
  "fcn_step cfg spsolve ops k s =
     fcn_commit cfg k (fcn_half2 cfg spsolve ops k (fcn_half1 cfg s))"

text \<open>
  \<^verbatim>\<open>for k in range(N_STEPS - 1)\<close>; \<open>fcn_loop cfg spsolve ops m s\<close> runs the iterations
  \<open>k = 0, \<dots>, m - 1\<close>.
\<close>

definition fcn_loop :: "config \<Rightarrow> solver \<Rightarrow> fcn_operators \<Rightarrow> nat \<Rightarrow> fcn_state \<Rightarrow> fcn_state" where
  "fcn_loop cfg spsolve ops m s = fold (fcn_step cfg spsolve ops) [0..<m] s"

definition fcn_propagate :: "config \<Rightarrow> solver \<Rightarrow> fcn_operators \<Rightarrow> fcn_state \<Rightarrow> fcn_state" where
  "fcn_propagate cfg spsolve ops s = fcn_loop cfg spsolve ops (N_STEPS cfg - 1) s"

text \<open>
  The script from line 244 to the end of the loop. When the loop body runs, line 257
  raises unless \<^verbatim>\<open>fourier_coeff\<close>, of \<open>2 * (N_TIME_NODES div 2)\<close> elements, has the length
  of a field row and that length is positive.
\<close>

definition fcn_main :: "config \<Rightarrow> solver \<Rightarrow> mat \<Rightarrow> fcn_state \<Rightarrow> py_error + fcn_state" where
  "fcn_main cfg spsolve ini mem =
     (case fcn_build cfg of
        Inl e \<Rightarrow> Inl e
      | Inr ops \<Rightarrow>
          if N_RADI_NODES cfg \<le> AXIS_NODE cfg then Inl IndexError
          else if 0 < N_STEPS cfg - 1 \<and>
                  (2 * (N_TIME_NODES cfg div 2) < N_TIME_NODES cfg \<or> N_TIME_NODES cfg = 0
                   \<or> N_RADI_NODES cfg = 1)
          then Inl ValueError
          else Inr (fcn_propagate cfg spsolve ops (fcn_init cfg ini mem)))"

text \<open>
  Lines 257 and 259 for one row \<open>x\<close> of the field: transform, multiply by
  \<^verbatim>\<open>fourier_coeff\<close>, transform back.
\<close>

definition spectral_line :: "config \<Rightarrow> vec \<Rightarrow> vec" where
  "spectral_line cfg x =
     ifft (N_TIME_NODES cfg)
       (\<lambda>m. if m < N_TIME_NODES cfg then fourier_coeff cfg m * fft (N_TIME_NODES cfg) x m else 0)"

text \<open>
  Lines 299--300 for the time node \<open>l\<close> in step \<open>k\<close>, as a function of the array \<open>b\<close> that the
  spectral half-step produced and of the history \<open>w\<close> at the start of the step.
\<close>

definition fcn_rhs :: "config \<Rightarrow> fcn_operators \<Rightarrow> nat \<Rightarrow> mat \<Rightarrow> cube \<Rightarrow> nat \<Rightarrow> vec" where
  "fcn_rhs cfg ops k b w l =
     (\<lambda>i. if i < N_RADI_NODES cfg
          then matvec (right_cn_matrix ops) (N_RADI_NODES cfg) (col (N_RADI_NODES cfg) b l) i
               + 0.5 * (3 * source cfg (b i l) - (if k = 0 then source cfg (b i l) else w i l 0))
          else 0)"

section \<open>Example runs\<close>

text \<open>
  Small configurations on which the schemes are evaluated below: two radial and two time
  nodes, cylindrical geometry, \<open>\<alpha> = \<i>/2\<close> for the radial operators, no dispersion in the
  spectral scheme. \<open>axis_beam\<close> is an initial field of amplitude 1 on the axis and 0 at the
  outer radial node; \<open>flat_beam\<close> has amplitude 1 everywhere. Memory that \<^verbatim>\<open>np.empty\<close>
  returns is taken to hold zeros.
\<close>

definition ex_fcn :: config where
  "ex_fcn = \<lparr>N_RADI_NODES = 2, N_TIME_NODES = 2, N_STEPS = 3, AXIS_NODE = 0, EU_CYL = 1,
     DIST_STEP_LEN = 1, TIME_STEP_LEN = 1, DELTA_R = 1 / 2, DELTA_T = 0,
     KERR_COEF = \<i>, MPA_COEF = - 1, MPA_EXP = 8\<rparr>"

definition ex_adi :: config where
  "ex_adi = \<lparr>N_RADI_NODES = 2, N_TIME_NODES = 2, N_STEPS = 1, AXIS_NODE = 0, EU_CYL = 1,
     DIST_STEP_LEN = 1, TIME_STEP_LEN = 1, DELTA_R = 1 / 2, DELTA_T = 1 / 2,
     KERR_COEF = \<i>, MPA_COEF = 0, MPA_EXP = 8\<rparr>"

definition axis_beam :: mat where
  "axis_beam = (\<lambda>i l. if i = 0 then 1 else 0)"

definition flat_beam :: mat where
  "flat_beam = (\<lambda>i l. 1)"

definition fcn_mem0 :: fcn_state where
  "fcn_mem0 = \<lparr>fcn_state.initial_array = (\<lambda>i l. 0), fcn_state.envelope_store = (\<lambda>i l. 0),
     fcn_state.envelope = InitialArray, fcn_state.envelope_axis = (\<lambda>k l. 0),
     envelope_fourier = (\<lambda>m. 0), fcn_state.b_array = (\<lambda>i l. 0),
     fcn_state.c_array = (\<lambda>i l p. 0), fcn_state.d_array = (\<lambda>i. 0),
     fcn_state.f_array = (\<lambda>i. 0), fcn_state.w_array = (\<lambda>i l p. 0)\<rparr>"

definition adi_mem0 :: adi_state where
  "adi_mem0 = \<lparr>adi_state.initial_array = (\<lambda>i l. 0), adi_state.envelope_store = (\<lambda>i l. 0),
     adi_state.envelope = InitialArray, adi_state.envelope_axis = (\<lambda>k l. 0),
     adi_state.b_array = (\<lambda>i l. 0), adi_state.c_array = (\<lambda>i l. 0),
     adi_state.d_array = (\<lambda>i l p. 0), adi_state.f_array = (\<lambda>i l. 0),
     adi_state.w_array = (\<lambda>i l p. 0)\<rparr>"

definition ex_fcn_ops :: fcn_operators where
  "ex_fcn_ops = \<lparr>left_cn_matrix = ([0], [1 + \<i>, 1], [- \<i>]),
     right_cn_matrix = ([0], [1 - \<i>, 0], [\<i>])\<rparr>"

definition ex_adi_ops :: adi_operators where
  "ex_adi_ops = \<lparr>left_cn_matrix_r = ([0], [1 + \<i>, 1], [- \<i>]),
     right_cn_matrix_r = ([0], [1 - \<i>, 0], [\<i>]),
     left_cn_matrix_t = ([0], [1, 1], [0]),
     right_cn_matrix_t = ([0], [0, 0], [0])\<rparr>"


section \<open>Properties of the operator builder\<close>

lemma cn_same: "crank_nicolson_diags = crank_nicolson_diags_r"
  by (simp add: fun_eq_iff crank_nicolson_diags_def crank_nicolson_diags_r_def)

lemma cn_r_succeeds: "0 < n \<Longrightarrow> \<exists>ds. crank_nicolson_diags_r n pos coor coef = Inr ds"
  by (simp add: crank_nicolson_diags_r_def set_ends_def Let_def)

lemma cn_r_main:
  assumes "crank_nicolson_diags_r n pos coor coef = Inr ds" "1 \<le> i" "Suc i < n"
  shows "entry ds i i = 1 + 2 * coef"
  using assms
  by (auto simp: crank_nicolson_diags_r_def set_ends_def Let_def entry_def split: if_splits)

lemma cn_r_upper:
  assumes "crank_nicolson_diags_r n pos coor coef = Inr ds" "1 \<le> i" "Suc i < n"
  shows "entry ds i (Suc i) = - coef * (1 + 0.5 * of_int coor / of_nat i)"
  using assms
  by (auto simp: crank_nicolson_diags_r_def set_ends_def Let_def entry_def nth_Cons' split: if_splits)

lemma cn_r_lower:
  assumes "crank_nicolson_diags_r n pos coor coef = Inr ds" "1 \<le> i" "Suc i < n"
  shows "entry ds i (i - 1) = - coef * (1 - 0.5 * of_int coor / of_nat i)"
  using assms
  by (auto simp: crank_nicolson_diags_r_def set_ends_def Let_def entry_def nth_append split: if_splits)

lemma cn_r_row0:
  assumes "crank_nicolson_diags_r n pos 1 coef = Inr ds" "pos = ''LEFT'' \<or> pos = ''RIGHT''"
  shows "entry ds 0 1 = - 2 * coef"
  using assms
  by (auto simp: crank_nicolson_diags_r_def set_ends_def Let_def entry_def split: if_splits)

lemma cn_t_succeeds: "2 \<le> n \<Longrightarrow> \<exists>ds. crank_nicolson_diags_t n pos coef = Inr ds"
  by (simp add: crank_nicolson_diags_t_def set_ends_def Let_def)

lemma cn_t_main:
  assumes "crank_nicolson_diags_t n pos coef = Inr ds" "1 \<le> i" "Suc i < n"
  shows "entry ds i i = 1 + 2 * coef"
  using assms
  by (auto simp: crank_nicolson_diags_t_def set_ends_def Let_def entry_def split: if_splits)

lemma cn_t_upper:
  assumes "crank_nicolson_diags_t n pos coef = Inr ds" "1 \<le> i" "Suc i < n"
  shows "entry ds i (Suc i) = - coef"
  using assms
  by (auto simp: crank_nicolson_diags_t_def set_ends_def Let_def entry_def split: if_splits)

lemma cn_t_lower:
  assumes "crank_nicolson_diags_t n pos coef = Inr ds" "1 \<le> i" "Suc i < n"
  shows "entry ds i (i - 1) = - coef"
  using assms
  by (auto simp: crank_nicolson_diags_t_def set_ends_def Let_def entry_def nth_list_update split: if_splits)

lemma entry_far: "j \<noteq> i \<Longrightarrow> Suc j \<noteq> i \<Longrightarrow> j \<noteq> Suc i \<Longrightarrow> entry ds i j = 0"
  by (simp add: entry_def split: prod.splits)

text \<open>
  C6, as stated: with cylindrical geometry the coefficient of the implicit operator in
  row 0 is not twice an interior off-diagonal coefficient of that operator. For three
  nodes and \<open>\<alpha> = 1\<close> it is \<open>-2\<close>, while the interior row holds \<open>-1/2\<close> and \<open>-3/2\<close>.
\<close>

theorem cyl_row0_not_twice_interior:
  "(case crank_nicolson_diags_r 3 ''LEFT'' 1 1 of
      Inl e \<Rightarrow> False
    | Inr ds \<Rightarrow> entry ds 0 1 = - 2 \<and> entry ds 1 2 = - 3 / 2 \<and> entry ds 1 0 = - 1 / 2
        \<and> entry ds 0 1 \<noteq> 2 * entry ds 1 2 \<and> entry ds 0 1 \<noteq> 2 * entry ds 1 0)"
  by (simp add: crank_nicolson_diags_r_def set_ends_def Let_def entry_def upt_rec numeral_eq_Suc)

text \<open>
  C6, amended: for cylindrical geometry, \<open>n \<ge> 3\<close> nodes and any \<open>\<alpha>\<close>, the row-0 off-diagonal
  coefficient of the implicit operator is \<open>-2\<alpha>\<close>. This is twice the interior off-diagonal
  coefficient \<open>-\<alpha>\<close> of the planar implicit operator built with the same \<open>\<alpha>\<close>, and it is the
  sum of the two off-diagonal coefficients of every interior row of the cylindrical
  operator itself. Both scripts build the same diagonals.
\<close>

theorem cyl_row0_coupling:
  assumes "3 \<le> n" "1 \<le> i" "Suc i < n"
  shows "\<exists>ds dp. crank_nicolson_diags_r n ''LEFT'' 1 \<alpha> = Inr ds
           \<and> crank_nicolson_diags n ''LEFT'' 1 \<alpha> = Inr ds
           \<and> crank_nicolson_diags_r n ''LEFT'' 0 \<alpha> = Inr dp
           \<and> entry ds 0 1 = - 2 * \<alpha>
           \<and> entry dp i (Suc i) = - \<alpha> \<and> entry dp i (i - 1) = - \<alpha>
           \<and> entry ds 0 1 = 2 * entry dp i (Suc i)
           \<and> entry ds 0 1 = 2 * entry dp i (i - 1)
           \<and> entry ds 0 1 = entry ds i (i - 1) + entry ds i (Suc i)"
proof -
  from assms obtain ds where ds: "crank_nicolson_diags_r n ''LEFT'' 1 \<alpha> = Inr ds"
    using cn_r_succeeds [of n "''LEFT''" 1 \<alpha>] by auto
  from assms obtain dp where dp: "crank_nicolson_diags_r n ''LEFT'' 0 \<alpha> = Inr dp"
    using cn_r_succeeds [of n "''LEFT''" 0 \<alpha>] by auto
  have r0: "entry ds 0 1 = - 2 * \<alpha>"
    using cn_r_row0 [OF ds] by simp
  have pu: "entry dp i (Suc i) = - \<alpha>" and pl: "entry dp i (i - 1) = - \<alpha>"
    using cn_r_upper [OF dp assms(2,3)] cn_r_lower [OF dp assms(2,3)] by simp_all
  have "entry ds i (i - 1) + entry ds i (Suc i) = - 2 * \<alpha>"
    unfolding cn_r_upper [OF ds assms(2,3)] cn_r_lower [OF ds assms(2,3)]
    by (simp add: algebra_simps)
  with ds dp r0 pu pl show ?thesis
    by (simp add: cn_same)
qed

theorem cyl_row0_coupling_witness:
  "(3::nat) \<le> 3 \<and> (1::nat) \<le> 1 \<and> Suc 1 < (3::nat)
   \<and> (\<exists>ds dp. crank_nicolson_diags_r 3 ''LEFT'' 1 \<i> = Inr ds
           \<and> crank_nicolson_diags 3 ''LEFT'' 1 \<i> = Inr ds
           \<and> crank_nicolson_diags_r 3 ''LEFT'' 0 \<i> = Inr dp
           \<and> entry ds 0 1 = - 2 * \<i>
           \<and> entry dp 1 (Suc 1) = - \<i> \<and> entry dp 1 (1 - 1) = - \<i>
           \<and> entry ds 0 1 = 2 * entry dp 1 (Suc 1)
           \<and> entry ds 0 1 = 2 * entry dp 1 (1 - 1)
           \<and> entry ds 0 1 = entry ds 1 (1 - 1) + entry ds 1 (Suc 1))"
  using cyl_row0_coupling [of 3 1 \<i>] by simp

text \<open>
  C7: four nodes, \<open>\<alpha> = 0.1 + 0i\<close>, planar geometry. The implicit operator has the main
  diagonal \<open>[1, 1.2, 1.2, 1]\<close>; its interior rows hold \<open>-0.1\<close> on both sides of the
  diagonal; its first and last rows hold nothing off the diagonal. Both scripts build
  the same diagonals.
\<close>

theorem planar_left_operator_literal:
  "crank_nicolson_diags_r 4 ''LEFT'' 0 (Complex 0.1 0)
     = Inr ([- 0.1, - 0.1, 0], [1, 1.2, 1.2, 1], [0, - 0.1, - 0.1])
   \<and> crank_nicolson_diags 4 ''LEFT'' 0 (Complex 0.1 0)
     = Inr ([- 0.1, - 0.1, 0], [1, 1.2, 1.2, 1], [0, - 0.1, - 0.1])
   \<and> map (\<lambda>i. entry ([- 0.1, - 0.1, 0], [1, 1.2, 1.2, 1], [0, - 0.1, - 0.1]) i i) [0, 1, 2, 3]
       = [1, 1.2, 1.2, 1]
   \<and> map (\<lambda>(i, j). entry ([- 0.1, - 0.1, 0], [1, 1.2, 1.2, 1], [0, - 0.1, - 0.1]) i j)
         [(1, 0), (1, 2), (2, 1), (2, 3)] = [- 0.1, - 0.1, - 0.1, - 0.1]
   \<and> map (\<lambda>(i, j). entry ([- 0.1, - 0.1, 0], [1, 1.2, 1.2, 1], [0, - 0.1, - 0.1]) i j)
         [(0, 1), (0, 2), (0, 3), (3, 0), (3, 1), (3, 2)] = [0, 0, 0, 0, 0, 0]"
  by (simp add: crank_nicolson_diags_r_def crank_nicolson_diags_def set_ends_def Let_def
      entry_def upt_rec numeral_eq_Suc complex_eq_iff)

text \<open>
  C10: for \<open>n \<ge> 3\<close> nodes, any geometry flag and any \<open>\<alpha>\<close>, the operators the engine pairs,
  LEFT with \<open>\<alpha>\<close> and RIGHT with \<open>-\<alpha>\<close>, have on every interior row \<open>i\<close> the main-diagonal
  coefficients \<open>1 + 2\<alpha>\<close> and \<open>1 - 2\<alpha>\<close>, off-diagonal coefficients that are negatives of each
  other, and hence sum to twice the identity row. This holds for the radial builder of
  both scripts and for the temporal builder of the ADI script.
\<close>

theorem paired_operators_sum:
  assumes "3 \<le> n" "1 \<le> i" "Suc i < n"
  shows "\<exists>l r lt rt.
           crank_nicolson_diags_r n ''LEFT'' coor \<alpha> = Inr l
         \<and> crank_nicolson_diags_r n ''RIGHT'' coor (- \<alpha>) = Inr r
         \<and> crank_nicolson_diags n ''LEFT'' coor \<alpha> = Inr l
         \<and> crank_nicolson_diags n ''RIGHT'' coor (- \<alpha>) = Inr r
         \<and> crank_nicolson_diags_t n ''LEFT'' \<alpha> = Inr lt
         \<and> crank_nicolson_diags_t n ''RIGHT'' (- \<alpha>) = Inr rt
         \<and> entry l i i = 1 + 2 * \<alpha> \<and> entry r i i = 1 - 2 * \<alpha>
         \<and> entry lt i i = 1 + 2 * \<alpha> \<and> entry rt i i = 1 - 2 * \<alpha>
         \<and> entry l i (Suc i) = - entry r i (Suc i) \<and> entry l i (i - 1) = - entry r i (i - 1)
         \<and> entry lt i (Suc i) = - entry rt i (Suc i) \<and> entry lt i (i - 1) = - entry rt i (i - 1)
         \<and> (\<forall>j. entry l i j + entry r i j = (if j = i then 2 else 0))
         \<and> (\<forall>j. entry lt i j + entry rt i j = (if j = i then 2 else 0))"
proof -
  obtain l where l: "crank_nicolson_diags_r n ''LEFT'' coor \<alpha> = Inr l"
    using cn_r_succeeds [of n "''LEFT''" coor \<alpha>] assms by auto
  obtain r where r: "crank_nicolson_diags_r n ''RIGHT'' coor (- \<alpha>) = Inr r"
    using cn_r_succeeds [of n "''RIGHT''" coor "- \<alpha>"] assms by auto
  obtain lt where lt: "crank_nicolson_diags_t n ''LEFT'' \<alpha> = Inr lt"
    using cn_t_succeeds [of n "''LEFT''" \<alpha>] assms by auto
  obtain rt where rt: "crank_nicolson_diags_t n ''RIGHT'' (- \<alpha>) = Inr rt"
    using cn_t_succeeds [of n "''RIGHT''" "- \<alpha>"] assms by auto
  note ii = assms(2,3)
  have d: "entry l i i = 1 + 2 * \<alpha>" "entry r i i = 1 - 2 * \<alpha>"
    "entry lt i i = 1 + 2 * \<alpha>" "entry rt i i = 1 - 2 * \<alpha>"
    using cn_r_main [OF l ii] cn_r_main [OF r ii] cn_t_main [OF lt ii] cn_t_main [OF rt ii]
    by simp_all
  have u: "entry l i (Suc i) = - entry r i (Suc i)" "entry lt i (Suc i) = - entry rt i (Suc i)"
    using cn_r_upper [OF l ii] cn_r_upper [OF r ii] cn_t_upper [OF lt ii] cn_t_upper [OF rt ii]
    by simp_all
  have lo: "entry l i (i - 1) = - entry r i (i - 1)" "entry lt i (i - 1) = - entry rt i (i - 1)"
    using cn_r_lower [OF l ii] cn_r_lower [OF r ii] cn_t_lower [OF lt ii] cn_t_lower [OF rt ii]
    by simp_all
  have row: "entry a i j + entry b i j = (if j = i then 2 else 0)"
    if "entry a i i + entry b i i = 2" "entry a i (Suc i) = - entry b i (Suc i)"
      "entry a i (i - 1) = - entry b i (i - 1)" for a b :: diags and j
  proof -
    consider "j = i" | "j = Suc i" | "Suc j = i" | "j \<noteq> i" "j \<noteq> Suc i" "Suc j \<noteq> i"
      by blast
    then show ?thesis
    proof cases
      case 1
      with that show ?thesis by simp
    next
      case 2
      with that show ?thesis by simp
    next
      case 3
      then have "j = i - 1" by simp
      with that 3 show ?thesis by auto
    next
      case 4
      then show ?thesis by (simp add: entry_far)
    qed
  qed
  have "\<forall>j. entry l i j + entry r i j = (if j = i then 2 else 0)"
    using row [of l r] d u lo by simp
  moreover have "\<forall>j. entry lt i j + entry rt i j = (if j = i then 2 else 0)"
    using row [of lt rt] d u lo by simp
  ultimately show ?thesis
    using l r lt rt d u lo by (simp add: cn_same)
qed

theorem paired_operators_sum_witness:
  "(3::nat) \<le> 4 \<and> (1::nat) \<le> 2 \<and> Suc 2 < (4::nat)
   \<and> (\<exists>l r lt rt.
           crank_nicolson_diags_r 4 ''LEFT'' 1 \<i> = Inr l
         \<and> crank_nicolson_diags_r 4 ''RIGHT'' 1 (- \<i>) = Inr r
         \<and> crank_nicolson_diags 4 ''LEFT'' 1 \<i> = Inr l
         \<and> crank_nicolson_diags 4 ''RIGHT'' 1 (- \<i>) = Inr r
         \<and> crank_nicolson_diags_t 4 ''LEFT'' \<i> = Inr lt
         \<and> crank_nicolson_diags_t 4 ''RIGHT'' (- \<i>) = Inr rt
         \<and> entry l 2 2 = 1 + 2 * \<i> \<and> entry r 2 2 = 1 - 2 * \<i>
         \<and> entry lt 2 2 = 1 + 2 * \<i> \<and> entry rt 2 2 = 1 - 2 * \<i>
         \<and> entry l 2 (Suc 2) = - entry r 2 (Suc 2) \<and> entry l 2 (2 - 1) = - entry r 2 (2 - 1)
         \<and> entry lt 2 (Suc 2) = - entry rt 2 (Suc 2) \<and> entry lt 2 (2 - 1) = - entry rt 2 (2 - 1)
         \<and> (\<forall>j. entry l 2 j + entry r 2 j = (if j = 2 then 2 else 0))
         \<and> (\<forall>j. entry lt 2 j + entry rt 2 j = (if j = 2 then 2 else 0)))"
  using paired_operators_sum [of 4 2 1 \<i>] by simp

section \<open>The loops as array transformations\<close>

lemma upt_fold_Suc: "fold f [0..<Suc m] s = f m (fold f [0..<m] s)"
  by simp

lemma G_mult [simp]: "G * z = z"
  by (simp add: G_def)

lemma load_col3_read:
  "load_col3 cfg n d l v i l' p =
     (if l' = l \<and> i < n \<and> p < 3
      then (if p = 0 then v i else if p = 1 then of_real ((cmod (v i)) ^ 2)
            else of_real ((cmod (v i)) ^ MPA_EXP cfg))
      else d i l' p)"
  by (auto simp: load_col3_def put_col3_def Let_def)

lemma load_row3_read:
  "load_row3 cfg n d i v i' l p =
     (if i' = i \<and> l < n \<and> p < 3
      then (if p = 0 then v l else if p = 1 then of_real ((cmod (v l)) ^ 2)
            else of_real ((cmod (v l)) ^ MPA_EXP cfg))
      else d i' l p)"
  by (auto simp: load_row3_def put_row3_def Let_def)

lemma source_load_col3:
  "i < n \<Longrightarrow> nlin cfg (load_col3 cfg n d l v i l 1) (load_col3 cfg n d l v i l 2) (load_col3 cfg n d l v i l 0)
     = source cfg (v i)"
  by (simp add: load_col3_read source_def)

lemma source_load_row3:
  "l < n \<Longrightarrow> nlin cfg (load_row3 cfg n d i v i l 1) (load_row3 cfg n d i v i l 2) (load_row3 cfg n d i v i l 0)
     = source cfg (v l)"
  by (simp add: load_row3_read source_def)

lemma adi_envelope_upd [simp]:
  "adi_envelope (s\<lparr>adi_state.b_array := b\<rparr>) = adi_envelope s"
  "adi_envelope (s\<lparr>adi_state.c_array := c\<rparr>) = adi_envelope s"
  "adi_envelope (s\<lparr>adi_state.d_array := d\<rparr>) = adi_envelope s"
  "adi_envelope (s\<lparr>adi_state.f_array := f\<rparr>) = adi_envelope s"
  "adi_envelope (s\<lparr>adi_state.w_array := w\<rparr>) = adi_envelope s"
  "adi_envelope (s\<lparr>adi_state.envelope_axis := a\<rparr>) = adi_envelope s"
  by (simp_all add: adi_envelope_def split: array_ref.splits)

lemma adi_rhs1_loop:
  "fold (adi_rhs1_body cfg ops) [0..<m] s =
     s\<lparr>adi_state.b_array := (\<lambda>i l. if i < m \<and> l < N_TIME_NODES cfg
          then matvec (right_cn_matrix_t ops) (N_TIME_NODES cfg) (row (N_TIME_NODES cfg) (adi_envelope s) i) l
          else adi_state.b_array s i l)\<rparr>"
proof (induction m)
  case 0
  show ?case by simp
next
  case (Suc m)
  show ?case
    unfolding upt_fold_Suc Suc.IH
    by (auto simp: adi_rhs1_body_def put_row_def fun_eq_iff less_Suc_eq)
qed

lemma adi_rhs2_loop:
  "fold (adi_rhs2_body cfg ops) [0..<m] s =
     s\<lparr>adi_state.b_array := (\<lambda>i l. if l < m \<and> i < N_RADI_NODES cfg
          then matvec (right_cn_matrix_r ops) (N_RADI_NODES cfg) (col (N_RADI_NODES cfg) (adi_state.c_array s) l) i
          else adi_state.b_array s i l)\<rparr>"
proof (induction m)
  case 0
  show ?case by simp
next
  case (Suc m)
  show ?case
    unfolding upt_fold_Suc Suc.IH
    by (auto simp: adi_rhs2_body_def put_col_def fun_eq_iff less_Suc_eq)
qed

lemma adi_envelope_cong:
  "adi_state.initial_array s' = adi_state.initial_array s \<Longrightarrow>
   adi_state.envelope_store s' = adi_state.envelope_store s \<Longrightarrow>
   adi_state.envelope s' = adi_state.envelope s \<Longrightarrow> adi_envelope s' = adi_envelope s"
  by (simp add: adi_envelope_def split: array_ref.splits)

subsection \<open>ADI: first half-step\<close>

lemma adi_half1_body_frame:
  "adi_state.initial_array (adi_half1_body cfg sp ops k l s) = adi_state.initial_array s"
  "adi_state.envelope_store (adi_half1_body cfg sp ops k l s) = adi_state.envelope_store s"
  "adi_state.envelope (adi_half1_body cfg sp ops k l s) = adi_state.envelope s"
  "adi_state.b_array (adi_half1_body cfg sp ops k l s) = adi_state.b_array s"
  by (simp_all add: adi_half1_body_def Let_def)

lemma adi_half1_body_w:
  "adi_state.w_array (adi_half1_body cfg sp ops k l s) =
     (\<lambda>i l' p. if l' = l \<and> i < N_RADI_NODES cfg \<and> (p = 1 \<or> p = 0 \<and> k = 0)
        then source cfg (adi_envelope s i l) else adi_state.w_array s i l' p)"
  by (auto simp: adi_half1_body_def Let_def source_col3_def put_col3_def load_col3_read col_def source_def fun_eq_iff)

lemma adi_half1_body_c:
  "adi_state.c_array (adi_half1_body cfg sp ops k l s) =
     put_col (N_RADI_NODES cfg) (adi_state.c_array s) l
       (sp (left_cn_matrix_r ops) (N_RADI_NODES cfg)
          (\<lambda>i. if i < N_RADI_NODES cfg
               then adi_state.b_array s i l
                    + 0.25 * (3 * source cfg (adi_envelope s i l)
                          - (if k = 0 then source cfg (adi_envelope s i l) else adi_state.w_array s i l 0))
               else 0))"
proof -
  have "col (N_RADI_NODES cfg) (adi_state.f_array
          (adi_half1_body cfg sp ops k l s\<lparr>adi_state.c_array := adi_state.c_array s\<rparr>)) l
        = (\<lambda>i. if i < N_RADI_NODES cfg
               then adi_state.b_array s i l
                    + 0.25 * (3 * source cfg (adi_envelope s i l)
                          - (if k = 0 then source cfg (adi_envelope s i l) else adi_state.w_array s i l 0))
               else 0)"
    by (auto simp: adi_half1_body_def Let_def source_col3_def put_col3_def put_col_def
        load_col3_read col_def source_def fun_eq_iff)
  then show ?thesis
    by (simp add: adi_half1_body_def Let_def)
qed

lemma adi_half1_body_axis:
  "k' \<noteq> Suc k \<Longrightarrow> adi_state.envelope_axis (adi_half1_body cfg sp ops k l s) k' l'
     = adi_state.envelope_axis s k' l'"
  by (simp add: adi_half1_body_def Let_def put_elem_def)

lemma adi_half1_loop:
  fixes cfg sp ops k s
  defines "body \<equiv> adi_half1_body cfg sp ops k"
  shows "adi_state.initial_array (fold body [0..<m] s) = adi_state.initial_array s
    \<and> adi_state.envelope_store (fold body [0..<m] s) = adi_state.envelope_store s
    \<and> adi_state.envelope (fold body [0..<m] s) = adi_state.envelope s
    \<and> adi_state.b_array (fold body [0..<m] s) = adi_state.b_array s
    \<and> adi_state.w_array (fold body [0..<m] s) =
        (\<lambda>i l p. if l < m \<and> i < N_RADI_NODES cfg \<and> (p = 1 \<or> p = 0 \<and> k = 0)
           then source cfg (adi_envelope s i l) else adi_state.w_array s i l p)
    \<and> adi_state.c_array (fold body [0..<m] s) =
        (\<lambda>i l. if l < m \<and> i < N_RADI_NODES cfg
           then sp (left_cn_matrix_r ops) (N_RADI_NODES cfg)
                  (\<lambda>i. if i < N_RADI_NODES cfg
                       then adi_state.b_array s i l
                            + 0.25 * (3 * source cfg (adi_envelope s i l)
                                - (if k = 0 then source cfg (adi_envelope s i l)
                                   else adi_state.w_array s i l 0))
                       else 0) i
           else adi_state.c_array s i l)
    \<and> (\<forall>k' l'. k' \<noteq> Suc k \<longrightarrow>
          adi_state.envelope_axis (fold body [0..<m] s) k' l' = adi_state.envelope_axis s k' l')"
proof (induction m)
  case 0
  show ?case by simp
next
  case (Suc m)
  let ?t = "fold body [0..<m] s"
  note ih = Suc.IH
  have f1: "adi_state.initial_array ?t = adi_state.initial_array s"
    and f2: "adi_state.envelope_store ?t = adi_state.envelope_store s"
    and f3: "adi_state.envelope ?t = adi_state.envelope s"
    and f4: "adi_state.b_array ?t = adi_state.b_array s"
    using ih by simp_all
  have w: "adi_state.w_array ?t =
        (\<lambda>i l p. if l < m \<and> i < N_RADI_NODES cfg \<and> (p = 1 \<or> p = 0 \<and> k = 0)
           then source cfg (adi_envelope s i l) else adi_state.w_array s i l p)"
    using ih by simp
  have c: "adi_state.c_array ?t =
        (\<lambda>i l. if l < m \<and> i < N_RADI_NODES cfg
           then sp (left_cn_matrix_r ops) (N_RADI_NODES cfg)
                  (\<lambda>i. if i < N_RADI_NODES cfg
                       then adi_state.b_array s i l
                            + 0.25 * (3 * source cfg (adi_envelope s i l)
                                - (if k = 0 then source cfg (adi_envelope s i l)
                                   else adi_state.w_array s i l 0))
                       else 0) i
           else adi_state.c_array s i l)"
    using ih by simp
  have ax: "\<And>k' l'. k' \<noteq> Suc k \<Longrightarrow>
          adi_state.envelope_axis ?t k' l' = adi_state.envelope_axis s k' l'"
    using ih by simp
  have env: "adi_envelope ?t = adi_envelope s"
    by (intro adi_envelope_cong f1 f2 f3)
  have step: "fold body [0..<Suc m] s = adi_half1_body cfg sp ops k m ?t"
    by (simp add: body_def)
  have "adi_state.w_array (fold body [0..<Suc m] s) =
        (\<lambda>i l p. if l < Suc m \<and> i < N_RADI_NODES cfg \<and> (p = 1 \<or> p = 0 \<and> k = 0)
           then source cfg (adi_envelope s i l) else adi_state.w_array s i l p)"
    unfolding step adi_half1_body_w env w
    by (auto simp: fun_eq_iff less_Suc_eq)
  moreover have "adi_state.c_array (fold body [0..<Suc m] s) =
        (\<lambda>i l. if l < Suc m \<and> i < N_RADI_NODES cfg
           then sp (left_cn_matrix_r ops) (N_RADI_NODES cfg)
                  (\<lambda>i. if i < N_RADI_NODES cfg
                       then adi_state.b_array s i l
                            + 0.25 * (3 * source cfg (adi_envelope s i l)
                                - (if k = 0 then source cfg (adi_envelope s i l)
                                   else adi_state.w_array s i l 0))
                       else 0) i
           else adi_state.c_array s i l)"
    unfolding step adi_half1_body_c env w c f4
    by (auto simp: fun_eq_iff less_Suc_eq put_col_def cong: if_cong)
  ultimately show ?case
    unfolding step
    by (simp add: adi_half1_body_frame adi_half1_body_axis f1 f2 f3 f4 ax)
qed

subsection \<open>ADI: second half-step\<close>

lemma adi_half2_body_frame:
  "adi_state.initial_array (adi_half2_body cfg sp ops k i s) = adi_state.initial_array s"
  "adi_state.envelope (adi_half2_body cfg sp ops k i s) = adi_state.envelope s"
  "adi_state.b_array (adi_half2_body cfg sp ops k i s) = adi_state.b_array s"
  "adi_state.c_array (adi_half2_body cfg sp ops k i s) = adi_state.c_array s"
  by (simp_all add: adi_half2_body_def Let_def)

lemma adi_half2_body_w:
  "adi_state.w_array (adi_half2_body cfg sp ops k i s) =
     (\<lambda>i' l p. if i' = i \<and> l < N_TIME_NODES cfg \<and> p = (if k = 0 then 0 else 1)
        then source cfg (adi_state.c_array s i l) else adi_state.w_array s i' l p)"
  by (auto simp: adi_half2_body_def Let_def source_row3_def put_row3_def load_row3_read row_def source_def fun_eq_iff)

lemma adi_half2_body_store:
  "adi_state.envelope_store (adi_half2_body cfg sp ops k i s) =
     put_row (N_TIME_NODES cfg) (adi_state.envelope_store s) i
       (sp (left_cn_matrix_t ops) (N_TIME_NODES cfg)
          (\<lambda>l. if l < N_TIME_NODES cfg
               then adi_state.b_array s i l
                    + 0.25 * (3 * (if k = 0 then adi_state.w_array s i l 1
                                   else source cfg (adi_state.c_array s i l))
                          - (if k = 0 then source cfg (adi_state.c_array s i l)
                             else adi_state.w_array s i l 0))
               else 0))"
proof -
  have "row (N_TIME_NODES cfg) (adi_state.f_array
          (adi_half2_body cfg sp ops k i s\<lparr>adi_state.envelope_store := adi_state.envelope_store s\<rparr>)) i
        = (\<lambda>l. if l < N_TIME_NODES cfg
               then adi_state.b_array s i l
                    + 0.25 * (3 * (if k = 0 then adi_state.w_array s i l 1
                                   else source cfg (adi_state.c_array s i l))
                          - (if k = 0 then source cfg (adi_state.c_array s i l)
                             else adi_state.w_array s i l 0))
               else 0)"
    by (auto simp: adi_half2_body_def Let_def source_row3_def put_row3_def put_row_def
        load_row3_read row_def source_def fun_eq_iff)
  then show ?thesis
    by (simp add: adi_half2_body_def Let_def)
qed

lemma adi_half2_body_axis:
  "k' \<noteq> Suc k \<Longrightarrow> adi_state.envelope_axis (adi_half2_body cfg sp ops k i s) k' l'
     = adi_state.envelope_axis s k' l'"
  by (simp add: adi_half2_body_def Let_def put_row_def)

lemma adi_half2_loop:
  fixes cfg sp ops k s
  defines "body \<equiv> adi_half2_body cfg sp ops k"
  shows "adi_state.initial_array (fold body [0..<m] s) = adi_state.initial_array s
    \<and> adi_state.envelope (fold body [0..<m] s) = adi_state.envelope s
    \<and> adi_state.b_array (fold body [0..<m] s) = adi_state.b_array s
    \<and> adi_state.c_array (fold body [0..<m] s) = adi_state.c_array s
    \<and> adi_state.w_array (fold body [0..<m] s) =
        (\<lambda>i l p. if i < m \<and> l < N_TIME_NODES cfg \<and> p = (if k = 0 then 0 else 1)
           then source cfg (adi_state.c_array s i l) else adi_state.w_array s i l p)
    \<and> adi_state.envelope_store (fold body [0..<m] s) =
        (\<lambda>i l. if i < m \<and> l < N_TIME_NODES cfg
           then sp (left_cn_matrix_t ops) (N_TIME_NODES cfg)
                  (\<lambda>l. if l < N_TIME_NODES cfg
                       then adi_state.b_array s i l
                            + 0.25 * (3 * (if k = 0 then adi_state.w_array s i l 1
                                           else source cfg (adi_state.c_array s i l))
                                  - (if k = 0 then source cfg (adi_state.c_array s i l)
                                     else adi_state.w_array s i l 0))
                       else 0) l
           else adi_state.envelope_store s i l)
    \<and> (\<forall>k' l'. k' \<noteq> Suc k \<longrightarrow>
          adi_state.envelope_axis (fold body [0..<m] s) k' l' = adi_state.envelope_axis s k' l')"
proof (induction m)
  case 0
  show ?case by simp
next
  case (Suc m)
  let ?t = "fold body [0..<m] s"
  note ih = Suc.IH
  have f1: "adi_state.initial_array ?t = adi_state.initial_array s"
    and f3: "adi_state.envelope ?t = adi_state.envelope s"
    and f4: "adi_state.b_array ?t = adi_state.b_array s"
    and f5: "adi_state.c_array ?t = adi_state.c_array s"
    using ih by simp_all
  have w: "adi_state.w_array ?t =
        (\<lambda>i l p. if i < m \<and> l < N_TIME_NODES cfg \<and> p = (if k = 0 then 0 else 1)
           then source cfg (adi_state.c_array s i l) else adi_state.w_array s i l p)"
    using ih by simp
  have st: "adi_state.envelope_store ?t =
        (\<lambda>i l. if i < m \<and> l < N_TIME_NODES cfg
           then sp (left_cn_matrix_t ops) (N_TIME_NODES cfg)
                  (\<lambda>l. if l < N_TIME_NODES cfg
                       then adi_state.b_array s i l
                            + 0.25 * (3 * (if k = 0 then adi_state.w_array s i l 1
                                           else source cfg (adi_state.c_array s i l))
                                  - (if k = 0 then source cfg (adi_state.c_array s i l)
                                     else adi_state.w_array s i l 0))
                       else 0) l
           else adi_state.envelope_store s i l)"
    using ih by simp
  have ax: "\<And>k' l'. k' \<noteq> Suc k \<Longrightarrow>
          adi_state.envelope_axis ?t k' l' = adi_state.envelope_axis s k' l'"
    using ih by simp
  have step: "fold body [0..<Suc m] s = adi_half2_body cfg sp ops k m ?t"
    by (simp add: body_def)
  have "adi_state.w_array (fold body [0..<Suc m] s) =
        (\<lambda>i l p. if i < Suc m \<and> l < N_TIME_NODES cfg \<and> p = (if k = 0 then 0 else 1)
           then source cfg (adi_state.c_array s i l) else adi_state.w_array s i l p)"
    unfolding step adi_half2_body_w w f5
    by (auto simp: fun_eq_iff less_Suc_eq)
  moreover have "adi_state.envelope_store (fold body [0..<Suc m] s) =
        (\<lambda>i l. if i < Suc m \<and> l < N_TIME_NODES cfg
           then sp (left_cn_matrix_t ops) (N_TIME_NODES cfg)
                  (\<lambda>l. if l < N_TIME_NODES cfg
                       then adi_state.b_array s i l
                            + 0.25 * (3 * (if k = 0 then adi_state.w_array s i l 1
                                           else source cfg (adi_state.c_array s i l))
                                  - (if k = 0 then source cfg (adi_state.c_array s i l)
                                     else adi_state.w_array s i l 0))
                       else 0) l
           else adi_state.envelope_store s i l)"
    unfolding step adi_half2_body_store w st f4 f5
    by (auto simp: fun_eq_iff less_Suc_eq put_row_def cong: if_cong)
  ultimately show ?case
    unfolding step
    by (simp add: adi_half2_body_frame adi_half2_body_axis f1 f3 f4 f5 ax)
qed

subsection \<open>ADI: the half-steps as wholes\<close>

lemma adi_half1_facts:
  fixes cfg sp ops k s
  defines "s1 \<equiv> adi_half1 cfg sp ops k s"
  defines "B \<equiv> (\<lambda>i l. if i < N_RADI_NODES cfg \<and> l < N_TIME_NODES cfg
          then matvec (right_cn_matrix_t ops) (N_TIME_NODES cfg) (row (N_TIME_NODES cfg) (adi_envelope s) i) l
          else adi_state.b_array s i l)"
  shows "adi_state.initial_array s1 = adi_state.initial_array s"
    and "adi_state.envelope_store s1 = adi_state.envelope_store s"
    and "adi_state.envelope s1 = adi_state.envelope s"
    and "adi_envelope s1 = adi_envelope s"
    and "adi_state.b_array s1 = B"
    and "adi_state.w_array s1 =
        (\<lambda>i l p. if l < N_TIME_NODES cfg \<and> i < N_RADI_NODES cfg \<and> (p = 1 \<or> p = 0 \<and> k = 0)
           then source cfg (adi_envelope s i l) else adi_state.w_array s i l p)"
    and "adi_state.c_array s1 =
        (\<lambda>i l. if l < N_TIME_NODES cfg \<and> i < N_RADI_NODES cfg
           then sp (left_cn_matrix_r ops) (N_RADI_NODES cfg)
                  (\<lambda>i. if i < N_RADI_NODES cfg
                       then B i l
                            + 0.25 * (3 * source cfg (adi_envelope s i l)
                                - (if k = 0 then source cfg (adi_envelope s i l)
                                   else adi_state.w_array s i l 0))
                       else 0) i
           else adi_state.c_array s i l)"
    and "\<And>k' l'. k' \<noteq> Suc k \<Longrightarrow> adi_state.envelope_axis s1 k' l' = adi_state.envelope_axis s k' l'"
proof -
  let ?a = "fold (adi_rhs1_body cfg ops) [0..<N_RADI_NODES cfg] s"
  have a: "?a = s\<lparr>adi_state.b_array := B\<rparr>"
    unfolding adi_rhs1_loop B_def by (simp add: conj_commute)
  have s1: "s1 = fold (adi_half1_body cfg sp ops k) [0..<N_TIME_NODES cfg] (s\<lparr>adi_state.b_array := B\<rparr>)"
    unfolding s1_def adi_half1_def a ..
  note L = adi_half1_loop [of cfg sp ops k "N_TIME_NODES cfg" "s\<lparr>adi_state.b_array := B\<rparr>", folded s1]
  show "adi_state.initial_array s1 = adi_state.initial_array s"
    and "adi_state.envelope_store s1 = adi_state.envelope_store s"
    and "adi_state.envelope s1 = adi_state.envelope s"
    and "adi_state.b_array s1 = B"
    using L by simp_all
  then show "adi_envelope s1 = adi_envelope s"
    by (intro adi_envelope_cong)
  show "adi_state.w_array s1 =
        (\<lambda>i l p. if l < N_TIME_NODES cfg \<and> i < N_RADI_NODES cfg \<and> (p = 1 \<or> p = 0 \<and> k = 0)
           then source cfg (adi_envelope s i l) else adi_state.w_array s i l p)"
    using L by (simp cong: if_cong)
  show "adi_state.c_array s1 =
        (\<lambda>i l. if l < N_TIME_NODES cfg \<and> i < N_RADI_NODES cfg
           then sp (left_cn_matrix_r ops) (N_RADI_NODES cfg)
                  (\<lambda>i. if i < N_RADI_NODES cfg
                       then B i l
                            + 0.25 * (3 * source cfg (adi_envelope s i l)
                                - (if k = 0 then source cfg (adi_envelope s i l)
                                   else adi_state.w_array s i l 0))
                       else 0) i
           else adi_state.c_array s i l)"
    using L by (simp cong: if_cong)
  show "\<And>k' l'. k' \<noteq> Suc k \<Longrightarrow> adi_state.envelope_axis s1 k' l' = adi_state.envelope_axis s k' l'"
    using L by (simp cong: if_cong)
qed

lemma adi_half2_facts:
  fixes cfg sp ops k s
  defines "s3 \<equiv> adi_half2 cfg sp ops k s"
  defines "B \<equiv> (\<lambda>i l. if l < N_TIME_NODES cfg \<and> i < N_RADI_NODES cfg
          then matvec (right_cn_matrix_r ops) (N_RADI_NODES cfg) (col (N_RADI_NODES cfg) (adi_state.c_array s) l) i
          else adi_state.b_array s i l)"
  shows "adi_state.initial_array s3 = adi_state.initial_array s"
    and "adi_state.envelope s3 = adi_state.envelope s"
    and "adi_state.c_array s3 = adi_state.c_array s"
    and "adi_state.b_array s3 = B"
    and "adi_state.w_array s3 =
        (\<lambda>i l p. if i < N_RADI_NODES cfg \<and> l < N_TIME_NODES cfg \<and> p = (if k = 0 then 0 else 1)
           then source cfg (adi_state.c_array s i l) else adi_state.w_array s i l p)"
    and "adi_state.envelope_store s3 =
        (\<lambda>i l. if i < N_RADI_NODES cfg \<and> l < N_TIME_NODES cfg
           then sp (left_cn_matrix_t ops) (N_TIME_NODES cfg)
                  (\<lambda>l. if l < N_TIME_NODES cfg
                       then B i l
                            + 0.25 * (3 * (if k = 0 then adi_state.w_array s i l 1
                                           else source cfg (adi_state.c_array s i l))
                                  - (if k = 0 then source cfg (adi_state.c_array s i l)
                                     else adi_state.w_array s i l 0))
                       else 0) l
           else adi_state.envelope_store s i l)"
    and "\<And>k' l'. k' \<noteq> Suc k \<Longrightarrow> adi_state.envelope_axis s3 k' l' = adi_state.envelope_axis s k' l'"
proof -
  let ?a = "fold (adi_rhs2_body cfg ops) [0..<N_TIME_NODES cfg] s"
  have a: "?a = s\<lparr>adi_state.b_array := B\<rparr>"
    unfolding adi_rhs2_loop B_def ..
  have s3: "s3 = fold (adi_half2_body cfg sp ops k) [0..<N_RADI_NODES cfg] (s\<lparr>adi_state.b_array := B\<rparr>)"
    unfolding s3_def adi_half2_def a ..
  note L = adi_half2_loop [of cfg sp ops k "N_RADI_NODES cfg" "s\<lparr>adi_state.b_array := B\<rparr>", folded s3]
  show "adi_state.initial_array s3 = adi_state.initial_array s"
    and "adi_state.envelope s3 = adi_state.envelope s"
    and "adi_state.c_array s3 = adi_state.c_array s"
    and "adi_state.b_array s3 = B"
    using L by simp_all
  show "adi_state.w_array s3 =
        (\<lambda>i l p. if i < N_RADI_NODES cfg \<and> l < N_TIME_NODES cfg \<and> p = (if k = 0 then 0 else 1)
           then source cfg (adi_state.c_array s i l) else adi_state.w_array s i l p)"
    using L by (simp cong: if_cong)
  show "adi_state.envelope_store s3 =
        (\<lambda>i l. if i < N_RADI_NODES cfg \<and> l < N_TIME_NODES cfg
           then sp (left_cn_matrix_t ops) (N_TIME_NODES cfg)
                  (\<lambda>l. if l < N_TIME_NODES cfg
                       then B i l
                            + 0.25 * (3 * (if k = 0 then adi_state.w_array s i l 1
                                           else source cfg (adi_state.c_array s i l))
                                  - (if k = 0 then source cfg (adi_state.c_array s i l)
                                     else adi_state.w_array s i l 0))
                       else 0) l
           else adi_state.envelope_store s i l)"
    using L by (simp cong: if_cong)
  show "\<And>k' l'. k' \<noteq> Suc k \<Longrightarrow> adi_state.envelope_axis s3 k' l' = adi_state.envelope_axis s k' l'"
    using L by (simp cong: if_cong)
qed

lemma adi_rotate_simps [simp]:
  "adi_state.initial_array (adi_rotate cfg s) = adi_state.initial_array s"
  "adi_state.envelope_store (adi_rotate cfg s) = adi_state.envelope_store s"
  "adi_state.envelope (adi_rotate cfg s) = adi_state.envelope s"
  "adi_state.envelope_axis (adi_rotate cfg s) = adi_state.envelope_axis s"
  "adi_state.b_array (adi_rotate cfg s) = adi_state.b_array s"
  "adi_state.c_array (adi_rotate cfg s) = adi_state.c_array s"
  "adi_state.w_array (adi_rotate cfg s) =
     rotate_history (N_RADI_NODES cfg) (N_TIME_NODES cfg) (adi_state.w_array s)"
  by (simp_all add: adi_rotate_def)

lemma adi_commit_simps:
  "adi_state.envelope (adi_commit cfg k s) = StoreArray"
  "adi_state.envelope_store (adi_commit cfg k s) = adi_state.envelope_store s"
  "adi_envelope (adi_commit cfg k s) = adi_state.envelope_store s"
  "adi_state.w_array (adi_commit cfg k s) =
     rotate_history (N_RADI_NODES cfg) (N_TIME_NODES cfg) (adi_state.w_array s)"
  "adi_state.envelope_axis (adi_commit cfg k s) =
     put_row (N_TIME_NODES cfg) (adi_state.envelope_axis s) (Suc k)
       (row (N_TIME_NODES cfg) (adi_state.envelope_store s) (AXIS_NODE cfg))"
  by (simp_all add: adi_commit_def Let_def adi_envelope_def)

subsection \<open>FCN: loops\<close>

lemma fcn_envelope_upd [simp]:
  "fcn_envelope (s\<lparr>fcn_state.b_array := b\<rparr>) = fcn_envelope s"
  "fcn_envelope (s\<lparr>fcn_state.c_array := c\<rparr>) = fcn_envelope s"
  "fcn_envelope (s\<lparr>fcn_state.d_array := d\<rparr>) = fcn_envelope s"
  "fcn_envelope (s\<lparr>fcn_state.f_array := f\<rparr>) = fcn_envelope s"
  "fcn_envelope (s\<lparr>fcn_state.w_array := w\<rparr>) = fcn_envelope s"
  "fcn_envelope (s\<lparr>fcn_state.envelope_axis := a\<rparr>) = fcn_envelope s"
  "fcn_envelope (s\<lparr>fcn_state.envelope_fourier := e\<rparr>) = fcn_envelope s"
  by (simp_all add: fcn_envelope_def split: array_ref.splits)

lemma fcn_envelope_cong:
  "fcn_state.initial_array s' = fcn_state.initial_array s \<Longrightarrow>
   fcn_state.envelope_store s' = fcn_state.envelope_store s \<Longrightarrow>
   fcn_state.envelope s' = fcn_state.envelope s \<Longrightarrow> fcn_envelope s' = fcn_envelope s"
  by (simp add: fcn_envelope_def split: array_ref.splits)

lemma fcn_half1_body_frame:
  "fcn_state.initial_array (fcn_half1_body cfg i s) = fcn_state.initial_array s"
  "fcn_state.envelope_store (fcn_half1_body cfg i s) = fcn_state.envelope_store s"
  "fcn_state.envelope (fcn_half1_body cfg i s) = fcn_state.envelope s"
  "fcn_state.envelope_axis (fcn_half1_body cfg i s) = fcn_state.envelope_axis s"
  "fcn_state.w_array (fcn_half1_body cfg i s) = fcn_state.w_array s"
  "fcn_state.b_array (fcn_half1_body cfg i s) =
     put_row (N_TIME_NODES cfg) (fcn_state.b_array s) i
       (spectral_line cfg (row (N_TIME_NODES cfg) (fcn_envelope s) i))"
  by (simp_all add: fcn_half1_body_def Let_def spectral_line_def)

lemma fcn_half1_facts:
  "fcn_state.initial_array (fold (fcn_half1_body cfg) [0..<m] s) = fcn_state.initial_array s
   \<and> fcn_state.envelope_store (fold (fcn_half1_body cfg) [0..<m] s) = fcn_state.envelope_store s
   \<and> fcn_state.envelope (fold (fcn_half1_body cfg) [0..<m] s) = fcn_state.envelope s
   \<and> fcn_state.envelope_axis (fold (fcn_half1_body cfg) [0..<m] s) = fcn_state.envelope_axis s
   \<and> fcn_state.w_array (fold (fcn_half1_body cfg) [0..<m] s) = fcn_state.w_array s
   \<and> fcn_state.b_array (fold (fcn_half1_body cfg) [0..<m] s) =
       (\<lambda>i l. if i < m \<and> l < N_TIME_NODES cfg
          then spectral_line cfg (row (N_TIME_NODES cfg) (fcn_envelope s) i) l
          else fcn_state.b_array s i l)"
proof (induction m)
  case 0
  show ?case by simp
next
  case (Suc m)
  let ?t = "fold (fcn_half1_body cfg) [0..<m] s"
  have env: "fcn_envelope ?t = fcn_envelope s"
    using Suc.IH by (intro fcn_envelope_cong) simp_all
  have b: "fcn_state.b_array ?t = (\<lambda>i l. if i < m \<and> l < N_TIME_NODES cfg
          then spectral_line cfg (row (N_TIME_NODES cfg) (fcn_envelope s) i) l
          else fcn_state.b_array s i l)"
    using Suc.IH by simp
  have step: "fold (fcn_half1_body cfg) [0..<Suc m] s = fcn_half1_body cfg m ?t"
    by simp
  have "fcn_state.b_array (fold (fcn_half1_body cfg) [0..<Suc m] s) =
       (\<lambda>i l. if i < Suc m \<and> l < N_TIME_NODES cfg
          then spectral_line cfg (row (N_TIME_NODES cfg) (fcn_envelope s) i) l
          else fcn_state.b_array s i l)"
    unfolding step fcn_half1_body_frame env b
    by (auto simp: put_row_def fun_eq_iff less_Suc_eq)
  then show ?case
    unfolding step using Suc.IH by (simp add: fcn_half1_body_frame)
qed

lemma fcn_half2_body_frame:
  "fcn_state.initial_array (fcn_half2_body cfg sp ops k l s) = fcn_state.initial_array s"
  "fcn_state.envelope (fcn_half2_body cfg sp ops k l s) = fcn_state.envelope s"
  "fcn_state.b_array (fcn_half2_body cfg sp ops k l s) = fcn_state.b_array s"
  by (simp_all add: fcn_half2_body_def Let_def)

lemma fcn_half2_body_w:
  "fcn_state.w_array (fcn_half2_body cfg sp ops k l s) =
     (\<lambda>i l' p. if l' = l \<and> i < N_RADI_NODES cfg \<and> (p = 1 \<or> p = 0 \<and> k = 0)
        then source cfg (fcn_state.b_array s i l) else fcn_state.w_array s i l' p)"
  by (auto simp: fcn_half2_body_def Let_def source_col3_def put_col3_def load_col3_read col_def source_def fun_eq_iff)

lemma fcn_half2_body_store:
  "fcn_state.envelope_store (fcn_half2_body cfg sp ops k l s) =
     put_col (N_RADI_NODES cfg) (fcn_state.envelope_store s) l
       (sp (left_cn_matrix ops) (N_RADI_NODES cfg)
          (fcn_rhs cfg ops k (fcn_state.b_array s) (fcn_state.w_array s) l))"
proof -
  have c0: "(\<lambda>i. if i < N_RADI_NODES cfg
        then fcn_state.c_array (fcn_half2_body cfg sp ops k l s) i l 0 else 0)
        = col (N_RADI_NODES cfg) (fcn_state.b_array s) l"
    by (auto simp: fcn_half2_body_def Let_def load_col3_read col_def fun_eq_iff)
  have "fcn_state.f_array (fcn_half2_body cfg sp ops k l s)
        = fcn_rhs cfg ops k (fcn_state.b_array s) (fcn_state.w_array s) l"
  proof -
    have "fcn_state.f_array (fcn_half2_body cfg sp ops k l s)
       = (\<lambda>i. if i < N_RADI_NODES cfg
          then matvec (right_cn_matrix ops) (N_RADI_NODES cfg)
                 (\<lambda>i. if i < N_RADI_NODES cfg
                   then fcn_state.c_array (fcn_half2_body cfg sp ops k l s) i l 0 else 0) i
               + 0.5 * (3 * fcn_state.w_array (fcn_half2_body cfg sp ops k l s) i l 1
                         - fcn_state.w_array (fcn_half2_body cfg sp ops k l s) i l 0)
          else 0)"
      by (cases "k = 0") (simp_all add: fcn_half2_body_def Let_def cong: if_cong)
    also have "\<dots> = fcn_rhs cfg ops k (fcn_state.b_array s) (fcn_state.w_array s) l"
      unfolding c0 fcn_half2_body_w fcn_rhs_def
      by (auto simp: fun_eq_iff)
    finally show ?thesis .
  qed
  moreover have "fcn_state.envelope_store (fcn_half2_body cfg sp ops k l s) =
     put_col (N_RADI_NODES cfg) (fcn_state.envelope_store s) l
       (sp (left_cn_matrix ops) (N_RADI_NODES cfg) (fcn_state.f_array (fcn_half2_body cfg sp ops k l s)))"
    by (cases "k = 0") (simp_all add: fcn_half2_body_def Let_def cong: if_cong)
  ultimately show ?thesis by simp
qed

lemma fcn_half2_body_axis:
  "k' \<noteq> Suc k \<or> k \<noteq> 0 \<Longrightarrow> fcn_state.envelope_axis (fcn_half2_body cfg sp ops k l s) k' l'
     = fcn_state.envelope_axis s k' l'"
  by (auto simp add: fcn_half2_body_def Let_def put_elem_def)

lemma fcn_half2_body_axis0:
  "AXIS_NODE cfg < N_RADI_NODES cfg \<Longrightarrow>
   fcn_state.envelope_axis (fcn_half2_body cfg sp ops 0 l s) =
     put_elem (fcn_state.envelope_axis s) 1 l (fcn_state.b_array s (AXIS_NODE cfg) l)"
  by (simp add: fcn_half2_body_def Let_def load_col3_read source_col3_def col_def)

lemma fcn_rhs_cong:
  "(\<And>i. i < N_RADI_NODES cfg \<Longrightarrow> w i l 0 = w' i l 0) \<Longrightarrow>
   fcn_rhs cfg ops k b w l = fcn_rhs cfg ops k b w' l"
  by (auto simp: fcn_rhs_def fun_eq_iff)

lemma fcn_half2_loop:
  fixes cfg sp ops k s
  defines "body \<equiv> fcn_half2_body cfg sp ops k"
  shows "fcn_state.initial_array (fold body [0..<m] s) = fcn_state.initial_array s
    \<and> fcn_state.envelope (fold body [0..<m] s) = fcn_state.envelope s
    \<and> fcn_state.b_array (fold body [0..<m] s) = fcn_state.b_array s
    \<and> fcn_state.w_array (fold body [0..<m] s) =
        (\<lambda>i l p. if l < m \<and> i < N_RADI_NODES cfg \<and> (p = 1 \<or> p = 0 \<and> k = 0)
           then source cfg (fcn_state.b_array s i l) else fcn_state.w_array s i l p)
    \<and> fcn_state.envelope_store (fold body [0..<m] s) =
        (\<lambda>i l. if l < m \<and> i < N_RADI_NODES cfg
           then sp (left_cn_matrix ops) (N_RADI_NODES cfg)
                  (fcn_rhs cfg ops k (fcn_state.b_array s) (fcn_state.w_array s) l) i
           else fcn_state.envelope_store s i l)
    \<and> (\<forall>k' l'. k' \<noteq> Suc k \<or> k \<noteq> 0 \<longrightarrow>
          fcn_state.envelope_axis (fold body [0..<m] s) k' l' = fcn_state.envelope_axis s k' l')
    \<and> (k = 0 \<and> AXIS_NODE cfg < N_RADI_NODES cfg \<longrightarrow>
          fcn_state.envelope_axis (fold body [0..<m] s) =
            (\<lambda>k' l'. if k' = 1 \<and> l' < m then fcn_state.b_array s (AXIS_NODE cfg) l'
               else fcn_state.envelope_axis s k' l'))"
proof (induction m)
  case 0
  show ?case by simp
next
  case (Suc m)
  let ?t = "fold body [0..<m] s"
  note ih = Suc.IH
  have f1: "fcn_state.initial_array ?t = fcn_state.initial_array s"
    and f3: "fcn_state.envelope ?t = fcn_state.envelope s"
    and f4: "fcn_state.b_array ?t = fcn_state.b_array s"
    using ih by simp_all
  have w: "fcn_state.w_array ?t =
        (\<lambda>i l p. if l < m \<and> i < N_RADI_NODES cfg \<and> (p = 1 \<or> p = 0 \<and> k = 0)
           then source cfg (fcn_state.b_array s i l) else fcn_state.w_array s i l p)"
    using ih by simp
  have st: "fcn_state.envelope_store ?t =
        (\<lambda>i l. if l < m \<and> i < N_RADI_NODES cfg
           then sp (left_cn_matrix ops) (N_RADI_NODES cfg)
                  (fcn_rhs cfg ops k (fcn_state.b_array s) (fcn_state.w_array s) l) i
           else fcn_state.envelope_store s i l)"
    using ih by simp
  have ax: "\<And>k' l'. k' \<noteq> Suc k \<or> k \<noteq> 0 \<Longrightarrow>
          fcn_state.envelope_axis ?t k' l' = fcn_state.envelope_axis s k' l'"
    using ih by simp
  have ax0: "k = 0 \<Longrightarrow> AXIS_NODE cfg < N_RADI_NODES cfg \<Longrightarrow>
          fcn_state.envelope_axis ?t =
            (\<lambda>k' l'. if k' = 1 \<and> l' < m then fcn_state.b_array s (AXIS_NODE cfg) l'
               else fcn_state.envelope_axis s k' l')"
    using ih by simp
  have step: "fold body [0..<Suc m] s = fcn_half2_body cfg sp ops k m ?t"
    by (simp add: body_def)
  have rhs: "fcn_rhs cfg ops k (fcn_state.b_array s) (fcn_state.w_array ?t) m
      = fcn_rhs cfg ops k (fcn_state.b_array s) (fcn_state.w_array s) m"
    by (rule fcn_rhs_cong) (simp add: w)
  have "fcn_state.w_array (fold body [0..<Suc m] s) =
        (\<lambda>i l p. if l < Suc m \<and> i < N_RADI_NODES cfg \<and> (p = 1 \<or> p = 0 \<and> k = 0)
           then source cfg (fcn_state.b_array s i l) else fcn_state.w_array s i l p)"
    unfolding step fcn_half2_body_w w f4
    by (auto simp: fun_eq_iff less_Suc_eq)
  moreover have "fcn_state.envelope_store (fold body [0..<Suc m] s) =
        (\<lambda>i l. if l < Suc m \<and> i < N_RADI_NODES cfg
           then sp (left_cn_matrix ops) (N_RADI_NODES cfg)
                  (fcn_rhs cfg ops k (fcn_state.b_array s) (fcn_state.w_array s) l) i
           else fcn_state.envelope_store s i l)"
    unfolding step fcn_half2_body_store f4 rhs st
    by (auto simp: fun_eq_iff less_Suc_eq put_col_def)
  moreover have "k = 0 \<and> AXIS_NODE cfg < N_RADI_NODES cfg \<longrightarrow>
          fcn_state.envelope_axis (fold body [0..<Suc m] s) =
            (\<lambda>k' l'. if k' = 1 \<and> l' < Suc m then fcn_state.b_array s (AXIS_NODE cfg) l'
               else fcn_state.envelope_axis s k' l')"
    unfolding step
    by (auto simp: fcn_half2_body_axis0 ax0 f4 put_elem_def fun_eq_iff less_Suc_eq)
  ultimately show ?case
    unfolding step
    by (simp add: fcn_half2_body_frame fcn_half2_body_axis f1 f3 f4 ax)
qed

lemma fcn_step_facts:
  fixes cfg sp ops k s
  defines "s' \<equiv> fcn_step cfg sp ops k s"
  defines "b \<equiv> (\<lambda>i l. if i < N_RADI_NODES cfg \<and> l < N_TIME_NODES cfg
          then spectral_line cfg (row (N_TIME_NODES cfg) (fcn_envelope s) i) l
          else fcn_state.b_array s i l)"
  shows "fcn_state.envelope s' = StoreArray"
    and "fcn_state.b_array s' = b"
    and "fcn_envelope s' =
        (\<lambda>i l. if l < N_TIME_NODES cfg \<and> i < N_RADI_NODES cfg
           then sp (left_cn_matrix ops) (N_RADI_NODES cfg)
                  (fcn_rhs cfg ops k b (fcn_state.w_array s) l) i
           else fcn_state.envelope_store s i l)"
    and "fcn_state.w_array s' =
        (\<lambda>i l p. if l < N_TIME_NODES cfg \<and> i < N_RADI_NODES cfg \<and> p < 2
           then source cfg (b i l) else fcn_state.w_array s i l p)"
    and "\<And>k' l'. k' \<noteq> k + 2 \<Longrightarrow> k' \<noteq> Suc k \<or> k \<noteq> 0 \<Longrightarrow>
           fcn_state.envelope_axis s' k' l' = fcn_state.envelope_axis s k' l'"
    and "\<And>l. l < N_TIME_NODES cfg \<Longrightarrow>
           fcn_state.envelope_axis s' (k + 2) l = fcn_envelope s' (AXIS_NODE cfg) l"
    and "\<And>l. k = 0 \<Longrightarrow> AXIS_NODE cfg < N_RADI_NODES cfg \<Longrightarrow> l < N_TIME_NODES cfg \<Longrightarrow>
           fcn_state.envelope_axis s' 1 l = b (AXIS_NODE cfg) l"
proof -
  let ?a = "fcn_half1 cfg s"
  let ?h = "fcn_half2 cfg sp ops k ?a"
  note A = fcn_half1_facts [of cfg "N_RADI_NODES cfg" s, folded fcn_half1_def]
  have ab: "fcn_state.b_array ?a = b"
    using A by (simp add: b_def)
  have aw: "fcn_state.w_array ?a = fcn_state.w_array s"
    and ast: "fcn_state.envelope_store ?a = fcn_state.envelope_store s"
    and aax: "fcn_state.envelope_axis ?a = fcn_state.envelope_axis s"
    using A by simp_all
  note H = fcn_half2_loop [of cfg sp ops k "N_TIME_NODES cfg" ?a, folded fcn_half2_def,
      unfolded ab aw ast aax]
  have hw: "fcn_state.w_array ?h =
        (\<lambda>i l p. if l < N_TIME_NODES cfg \<and> i < N_RADI_NODES cfg \<and> (p = 1 \<or> p = 0 \<and> k = 0)
           then source cfg (b i l) else fcn_state.w_array s i l p)"
    and hst: "fcn_state.envelope_store ?h =
        (\<lambda>i l. if l < N_TIME_NODES cfg \<and> i < N_RADI_NODES cfg
           then sp (left_cn_matrix ops) (N_RADI_NODES cfg)
                  (fcn_rhs cfg ops k b (fcn_state.w_array s) l) i
           else fcn_state.envelope_store s i l)"
    and hb: "fcn_state.b_array ?h = b"
    and hax: "\<And>k' l'. k' \<noteq> Suc k \<or> k \<noteq> 0 \<Longrightarrow>
          fcn_state.envelope_axis ?h k' l' = fcn_state.envelope_axis s k' l'"
    and hax0: "k = 0 \<Longrightarrow> AXIS_NODE cfg < N_RADI_NODES cfg \<Longrightarrow>
          fcn_state.envelope_axis ?h =
            (\<lambda>k' l'. if k' = 1 \<and> l' < N_TIME_NODES cfg then b (AXIS_NODE cfg) l'
               else fcn_state.envelope_axis s k' l')"
    using H by simp_all
  have s': "s' = fcn_commit cfg k ?h"
    by (simp add: s'_def fcn_step_def)
  show "fcn_state.envelope s' = StoreArray"
    by (simp add: s' fcn_commit_def Let_def)
  show "fcn_state.b_array s' = b"
    by (simp add: s' fcn_commit_def Let_def hb)
  have env: "fcn_envelope s' = fcn_state.envelope_store ?h"
    by (simp add: s' fcn_commit_def Let_def fcn_envelope_def)
  show "fcn_envelope s' =
        (\<lambda>i l. if l < N_TIME_NODES cfg \<and> i < N_RADI_NODES cfg
           then sp (left_cn_matrix ops) (N_RADI_NODES cfg)
                  (fcn_rhs cfg ops k b (fcn_state.w_array s) l) i
           else fcn_state.envelope_store s i l)"
    unfolding env hst ..
  have "fcn_state.w_array s' =
      rotate_history (N_RADI_NODES cfg) (N_TIME_NODES cfg) (fcn_state.w_array ?h)"
    by (simp add: s' fcn_commit_def Let_def)
  then show "fcn_state.w_array s' =
        (\<lambda>i l p. if l < N_TIME_NODES cfg \<and> i < N_RADI_NODES cfg \<and> p < 2
           then source cfg (b i l) else fcn_state.w_array s i l p)"
    unfolding hw by (auto simp: rotate_history_def fun_eq_iff)
  have sax: "fcn_state.envelope_axis s' =
      put_row (N_TIME_NODES cfg) (fcn_state.envelope_axis ?h) (k + 2)
        (row (N_TIME_NODES cfg) (fcn_state.envelope_store ?h) (AXIS_NODE cfg))"
    by (simp add: s' fcn_commit_def Let_def)
  show "\<And>k' l'. k' \<noteq> k + 2 \<Longrightarrow> k' \<noteq> Suc k \<or> k \<noteq> 0 \<Longrightarrow>
           fcn_state.envelope_axis s' k' l' = fcn_state.envelope_axis s k' l'"
    unfolding sax by (simp add: put_row_def hax)
  show "\<And>l. l < N_TIME_NODES cfg \<Longrightarrow>
           fcn_state.envelope_axis s' (k + 2) l = fcn_envelope s' (AXIS_NODE cfg) l"
    unfolding env sax by (simp add: put_row_def row_def)
  show "\<And>l. k = 0 \<Longrightarrow> AXIS_NODE cfg < N_RADI_NODES cfg \<Longrightarrow> l < N_TIME_NODES cfg \<Longrightarrow>
           fcn_state.envelope_axis s' 1 l = b (AXIS_NODE cfg) l"
  proof -
    fix l assume k: "k = 0" and a: "AXIS_NODE cfg < N_RADI_NODES cfg" and l: "l < N_TIME_NODES cfg"
    show "fcn_state.envelope_axis s' 1 l = b (AXIS_NODE cfg) l"
      unfolding sax hax0 [OF k a] using l by (simp add: put_row_def)
  qed
qed

subsection \<open>ADI: the propagation step and the trace\<close>



lemma adi_loop_0 [simp]: "adi_loop cfg sp ops 0 s = s"
  by (simp add: adi_loop_def)



lemma adi_init_envelope: "adi_envelope (adi_init cfg ini mem) = ini"
  by (simp add: adi_init_def Let_def adi_envelope_def)




subsection \<open>FCN: the propagation step and the trace\<close>

lemma fcn_loop_0 [simp]: "fcn_loop cfg sp ops 0 s = s"
  by (simp add: fcn_loop_def)

lemma fcn_loop_Suc: "fcn_loop cfg sp ops (Suc m) s = fcn_step cfg sp ops m (fcn_loop cfg sp ops m s)"
  by (simp add: fcn_loop_def)

lemma fcn_init_envelope: "fcn_envelope (fcn_init cfg ini mem) = ini"
  by (simp add: fcn_init_def Let_def fcn_envelope_def)

lemma fcn_init_axis:
  "l < N_TIME_NODES cfg \<Longrightarrow>
   fcn_state.envelope_axis (fcn_init cfg ini mem) 0 l = ini (AXIS_NODE cfg) l"
  by (simp add: fcn_init_def Let_def put_row_def row_def fcn_envelope_def)

lemma fcn_loop_axis_keep:
  "i \<le> m \<Longrightarrow> 0 < m \<Longrightarrow> fcn_state.envelope_axis (fcn_loop cfg sp ops (m + j) s) (Suc i) l
     = fcn_state.envelope_axis (fcn_loop cfg sp ops m s) (Suc i) l"
proof (induction j)
  case 0
  show ?case by simp
next
  case (Suc j)
  have "fcn_state.envelope_axis (fcn_step cfg sp ops (m + j) (fcn_loop cfg sp ops (m + j) s)) (Suc i) l
      = fcn_state.envelope_axis (fcn_loop cfg sp ops (m + j) s) (Suc i) l"
    using Suc.prems by (intro fcn_step_facts(5)) simp_all
  with Suc show ?case
    by (simp add: fcn_loop_Suc)
qed

lemma fcn_loop_axis_zero:
  "fcn_state.envelope_axis (fcn_loop cfg sp ops m s) 0 l = fcn_state.envelope_axis s 0 l"
proof (induction m)
  case 0
  show ?case by simp
next
  case (Suc m)
  have "fcn_state.envelope_axis (fcn_step cfg sp ops m (fcn_loop cfg sp ops m s)) 0 l
      = fcn_state.envelope_axis (fcn_loop cfg sp ops m s) 0 l"
    by (intro fcn_step_facts(5)) simp_all
  with Suc show ?case
    by (simp add: fcn_loop_Suc)
qed

lemma fcn_trace_rows:
  assumes "1 \<le> i" "i \<le> N_STEPS cfg - 1" "l < N_TIME_NODES cfg"
  shows "fcn_state.envelope_axis (fcn_propagate cfg sp ops (fcn_init cfg ini mem)) (Suc i) l
     = fcn_envelope (fcn_loop cfg sp ops i (fcn_init cfg ini mem)) (AXIS_NODE cfg) l"
proof -
  from assms(2) obtain j where j: "N_STEPS cfg - 1 = i + j"
    using le_Suc_ex by blast
  from assms(1) obtain i' where i': "i = Suc i'"
    by (cases i) simp_all
  have "fcn_state.envelope_axis (fcn_loop cfg sp ops (Suc i') (fcn_init cfg ini mem)) (i' + 2) l
     = fcn_envelope (fcn_loop cfg sp ops (Suc i') (fcn_init cfg ini mem)) (AXIS_NODE cfg) l"
    unfolding fcn_loop_Suc by (rule fcn_step_facts(6)) (rule assms(3))
  moreover have "fcn_state.envelope_axis (fcn_loop cfg sp ops (i + j) (fcn_init cfg ini mem)) (Suc i) l
     = fcn_state.envelope_axis (fcn_loop cfg sp ops i (fcn_init cfg ini mem)) (Suc i) l"
    using assms(1) by (intro fcn_loop_axis_keep) simp_all
  ultimately show ?thesis
    unfolding fcn_propagate_def j
    by (simp add: i')
qed

lemma fcn_trace_row1:
  assumes "2 \<le> N_STEPS cfg" "l < N_TIME_NODES cfg" "AXIS_NODE cfg < N_RADI_NODES cfg"
  shows "fcn_state.envelope_axis (fcn_propagate cfg sp ops (fcn_init cfg ini mem)) 1 l
     = spectral_line cfg (row (N_TIME_NODES cfg) ini (AXIS_NODE cfg)) l"
proof -
  from assms(1) have "1 \<le> N_STEPS cfg - 1"
    by simp
  then obtain j where j: "N_STEPS cfg - 1 = 1 + j"
    using le_Suc_ex by blast
  have "fcn_state.envelope_axis (fcn_loop cfg sp ops (1 + j) (fcn_init cfg ini mem)) (Suc 0) l
     = fcn_state.envelope_axis (fcn_loop cfg sp ops 1 (fcn_init cfg ini mem)) (Suc 0) l"
    by (rule fcn_loop_axis_keep) simp_all
  also have "\<dots> = fcn_state.envelope_axis (fcn_step cfg sp ops 0 (fcn_init cfg ini mem)) 1 l"
    by (simp add: fcn_loop_def)
  also have "\<dots> = spectral_line cfg (row (N_TIME_NODES cfg) ini (AXIS_NODE cfg)) l"
    using fcn_step_facts(7) [of 0 cfg l sp ops "fcn_init cfg ini mem"] assms
    by (simp add: fcn_init_envelope)
  finally show ?thesis
    unfolding fcn_propagate_def j by simp
qed

section \<open>The discrete Fourier transform\<close>

lemma cis_root_neq_1:
  assumes "0 < n" "d \<noteq> 0" "\<bar>d\<bar> < int n"
  shows "cis (2 * pi * real_of_int d / real n) \<noteq> 1"
proof
  assume "cis (2 * pi * real_of_int d / real n) = 1"
  then have "cos (2 * pi * real_of_int d / real n) = 1"
    by (simp add: complex_eq_iff)
  then obtain q :: int where q: "2 * pi * real_of_int d / real n = real_of_int q * 2 * pi"
    unfolding cos_one_2pi_int by blast
  with assms(1) have "real_of_int d = real_of_int q * real n"
    by (simp add: field_simps)
  then have "d = q * int n"
    by (metis of_int_eq_iff of_int_mult of_int_of_nat_eq)
  with assms(2,3) show False
    by (cases "q = 0") (auto simp: abs_mult)
qed

lemma cis_root_sum:
  assumes "0 < n"
  shows "(\<Sum>m<n. cis (2 * pi * real_of_int d * real m / real n))
           = (if d = 0 then of_nat n else if \<bar>d\<bar> < int n then 0
              else (\<Sum>m<n. cis (2 * pi * real_of_int d * real m / real n)))"
proof (cases "d = 0")
  case True
  then show ?thesis by simp
next
  case False
  show ?thesis
  proof (cases "\<bar>d\<bar> < int n")
    case True
    let ?w = "cis (2 * pi * real_of_int d / real n)"
    have w1: "?w \<noteq> 1"
      using cis_root_neq_1 [OF assms False True] .
    have pw: "cis (2 * pi * real_of_int d * real m / real n) = ?w ^ m" for m
      by (simp add: DeMoivre algebra_simps)
    have "?w ^ n = cis (2 * pi * real_of_int d)"
      using assms by (simp add: DeMoivre)
    also have "\<dots> = 1"
      by (rule cis_multiple_2pi) simp
    finally have wn: "?w ^ n = 1" .
    have "(\<Sum>m<n. ?w ^ m) = (?w ^ n - 1) / (?w - 1)"
      using w1 by (rule geometric_sum)
    then have "(\<Sum>m<n. ?w ^ m) = 0"
      by (simp add: wn)
    with True False show ?thesis
      by (simp add: pw)
  next
    case False
    with \<open>d \<noteq> 0\<close> show ?thesis by simp
  qed
qed

lemma dft_orthogonal:
  assumes "j < n" "l < n"
  shows "(\<Sum>m<n. cis (- (2 * pi * real j * real m / real n)) * cis (2 * pi * real l * real m / real n))
           = (if j = l then of_nat n else 0)"
proof -
  have n: "0 < n" using assms by simp
  have "(\<Sum>m<n. cis (- (2 * pi * real j * real m / real n)) * cis (2 * pi * real l * real m / real n))
       = (\<Sum>m<n. cis (2 * pi * real_of_int (int l - int j) * real m / real n))"
    by (rule sum.cong) (simp_all add: cis_mult algebra_simps diff_divide_distrib)
  also have "\<dots> = (if j = l then of_nat n else 0)"
    using assms by (subst cis_root_sum [OF n]) auto
  finally show ?thesis .
qed

lemma ifft_fft:
  assumes "l < n"
  shows "ifft n (fft n x) l = x l"
proof -
  have "(\<Sum>m<n. fft n x m * cis (2 * pi * real l * real m / real n))
      = (\<Sum>m<n. \<Sum>j<n. x j * (cis (- (2 * pi * real j * real m / real n))
                              * cis (2 * pi * real l * real m / real n)))"
    by (rule sum.cong) (simp_all add: fft_def sum_distrib_right mult.assoc)
  also have "\<dots> = (\<Sum>j<n. x j * (\<Sum>m<n. cis (- (2 * pi * real j * real m / real n))
                              * cis (2 * pi * real l * real m / real n)))"
    by (subst sum.swap) (simp add: sum_distrib_left)
  also have "\<dots> = (\<Sum>j<n. x j * (if j = l then of_nat n else 0))"
    by (rule sum.cong) (simp_all add: dft_orthogonal assms)
  also have "\<dots> = x l * of_nat n"
    using assms by (simp add: if_distrib [of "\<lambda>z. _ * z"] sum.delta' cong: if_cong)
  finally show ?thesis
    using assms by (simp add: ifft_def)
qed

lemma fft_parseval_complex:
  "(\<Sum>m<n. fft n x m * cnj (fft n x m)) = of_nat n * (\<Sum>j<n. x j * cnj (x j))"
proof -
  let ?e = "\<lambda>j m. cis (- (2 * pi * real j * real m / real n))"
  let ?f = "\<lambda>j m. cis (2 * pi * real j * real m / real n)"
  have "(\<Sum>m<n. fft n x m * cnj (fft n x m))
      = (\<Sum>m<n. (\<Sum>j<n. x j * ?e j m) * (\<Sum>j'<n. cnj (x j') * ?f j' m))"
    by (rule sum.cong) (simp_all add: fft_def cis_cnj)
  also have "\<dots> = (\<Sum>m<n. \<Sum>j<n. \<Sum>j'<n. (x j * cnj (x j')) * (?e j m * ?f j' m))"
    by (intro sum.cong refl) (simp add: sum_product mult_ac)
  also have "\<dots> = (\<Sum>j<n. \<Sum>m<n. \<Sum>j'<n. (x j * cnj (x j')) * (?e j m * ?f j' m))"
    by (rule sum.swap)
  also have "\<dots> = (\<Sum>j<n. \<Sum>j'<n. \<Sum>m<n. (x j * cnj (x j')) * (?e j m * ?f j' m))"
    by (rule sum.cong [OF refl]) (rule sum.swap)
  also have "\<dots> = (\<Sum>j<n. \<Sum>j'<n. (x j * cnj (x j')) * (\<Sum>m<n. ?e j m * ?f j' m))"
    by (simp add: sum_distrib_left)
  also have "\<dots> = (\<Sum>j<n. \<Sum>j'<n. (x j * cnj (x j')) * (if j = j' then of_nat n else 0))"
    by (intro sum.cong refl) (simp add: dft_orthogonal)
  also have "\<dots> = (\<Sum>j<n. (x j * cnj (x j)) * of_nat n)"
    by (intro sum.cong refl) (simp add: if_distrib [of "\<lambda>z. _ * z"] sum.delta cong: if_cong)
  also have "\<dots> = of_nat n * (\<Sum>j<n. x j * cnj (x j))"
    by (simp add: sum_distrib_left mult.commute)
  finally show ?thesis .
qed

lemma sum_norm_square: "complex_of_real (\<Sum>j<n. (cmod (x j))\<^sup>2) = (\<Sum>j<n. x j * cnj (x j))"
  by (simp only: of_real_sum complex_norm_square)

lemma fft_parseval: "(\<Sum>m<n. (cmod (fft n x m))\<^sup>2) = real n * (\<Sum>j<n. (cmod (x j))\<^sup>2)"
proof -
  have "complex_of_real (\<Sum>m<n. (cmod (fft n x m))\<^sup>2)
      = complex_of_real (real n * (\<Sum>j<n. (cmod (x j))\<^sup>2))"
    unfolding of_real_mult sum_norm_square fft_parseval_complex by simp
  then show ?thesis
    by (simp only: of_real_eq_iff)
qed

lemma ifft_conv_fft:
  "ifft n y l = cnj (fft n (\<lambda>m. cnj (y m)) l) / of_nat n"
  by (simp add: ifft_def fft_def cis_cnj mult_ac)

lemma ifft_parseval:
  "(\<Sum>l<n. (cmod (ifft n y l))\<^sup>2) = (\<Sum>m<n. (cmod (y m))\<^sup>2) / real n"
proof (cases "n = 0")
  case True
  then show ?thesis by simp
next
  case False
  have "(\<Sum>l<n. (cmod (ifft n y l))\<^sup>2)
      = (\<Sum>l<n. (cmod (fft n (\<lambda>m. cnj (y m)) l))\<^sup>2 / (real n)\<^sup>2)"
    by (rule sum.cong) (simp_all add: ifft_conv_fft norm_divide power_divide)
  also have "\<dots> = (\<Sum>l<n. (cmod (fft n (\<lambda>m. cnj (y m)) l))\<^sup>2) / (real n)\<^sup>2"
    by (simp add: sum_divide_distrib)
  also have "\<dots> = (real n * (\<Sum>m<n. (cmod (y m))\<^sup>2)) / (real n)\<^sup>2"
    by (simp add: fft_parseval)
  also have "\<dots> = (\<Sum>m<n. (cmod (y m))\<^sup>2) / real n"
    using False by (simp add: power2_eq_square)
  finally show ?thesis .
qed

lemma fourier_coeff_unit: "cmod (fourier_coeff cfg m) = 1"
  by (simp add: fourier_coeff_def)

lemma spectral_line_energy:
  "(\<Sum>l<N_TIME_NODES cfg. (cmod (spectral_line cfg x l))\<^sup>2) = (\<Sum>l<N_TIME_NODES cfg. (cmod (x l))\<^sup>2)"
proof (cases "N_TIME_NODES cfg = 0")
  case True
  then show ?thesis by simp
next
  case False
  let ?n = "N_TIME_NODES cfg"
  have "(\<Sum>l<?n. (cmod (spectral_line cfg x l))\<^sup>2)
      = (\<Sum>m<?n. (cmod (if m < ?n then fourier_coeff cfg m * fft ?n x m else 0))\<^sup>2) / real ?n"
    unfolding spectral_line_def by (rule ifft_parseval)
  also have "(\<Sum>m<?n. (cmod (if m < ?n then fourier_coeff cfg m * fft ?n x m else 0))\<^sup>2)
      = (\<Sum>m<?n. (cmod (fft ?n x m))\<^sup>2)"
    by (rule sum.cong) (simp_all add: norm_mult fourier_coeff_unit)
  also have "\<dots> / real ?n = (\<Sum>l<?n. (cmod (x l))\<^sup>2)"
    using False by (simp add: fft_parseval)
  finally show ?thesis .
qed

section \<open>Evaluation of the example runs\<close>

lemma ex_fcn_build: "fcn_build ex_fcn = Inr ex_fcn_ops"
  by (simp add: fcn_build_def ex_fcn_def ex_fcn_ops_def crank_nicolson_diags_def set_ends_def Let_def
      numeral_2_eq_2 complex_eq_iff)

lemma ex_adi_build: "adi_build ex_adi = Inr ex_adi_ops"
  by (simp add: adi_build_def ex_adi_def ex_adi_ops_def crank_nicolson_diags_r_def
      crank_nicolson_diags_t_def set_ends_def Let_def numeral_2_eq_2 complex_eq_iff)

lemma tdma_d_zero: "tdma_d A (\<lambda>i. 0) i = 0"
  by (induction i) simp_all

lemma tdma_back_zero: "tdma_back A (\<lambda>i. 0) i m = 0"
  by (induction m arbitrary: i) (simp_all add: tdma_d_zero)

lemma tdma_zero: "tdma A n (\<lambda>i. 0) i = 0"
  by (simp add: tdma_def tdma_back_zero)

lemma spectral_line_no_dispersion:
  assumes "DELTA_T cfg = 0" "l < N_TIME_NODES cfg"
  shows "spectral_line cfg x l = x l"
proof -
  have "(\<lambda>m. if m < N_TIME_NODES cfg then fourier_coeff cfg m * fft (N_TIME_NODES cfg) x m else 0)
      = fft (N_TIME_NODES cfg) x"
    using assms(1) by (auto simp: fourier_coeff_def fft_def fun_eq_iff)
  then show ?thesis
    by (simp add: spectral_line_def ifft_fft assms(2))
qed

lemma source_zero [simp]: "source cfg 0 = 0"
  by (simp add: source_def nlin_def)

lemma ex_fcn_simps [simp]:
  "N_RADI_NODES ex_fcn = 2" "N_TIME_NODES ex_fcn = 2" "AXIS_NODE ex_fcn = 0" "DELTA_T ex_fcn = 0"
  "N_STEPS ex_fcn = 3"
  by (simp_all add: ex_fcn_def)

lemma ex_fcn_source: "source ex_fcn 1 = - 1 + \<i>"
  by (simp add: source_def nlin_def ex_fcn_def)

lemma two_cases: "i < 2 \<longleftrightarrow> i = 0 \<or> i = (1::nat)"
  by auto

lemma ex_fcn_matvec:
  "matvec (right_cn_matrix ex_fcn_ops) 2 v = (\<lambda>i. if i = 0 then (1 - \<i>) * v 0 + \<i> * v 1 else 0)"
  by (auto simp: matvec_def ex_fcn_ops_def entry_def fun_eq_iff numeral_2_eq_2)

lemma ex_fcn_tdma:
  "tdma (left_cn_matrix ex_fcn_ops) 2 f =
     (\<lambda>i. if i = 0 then (f 0 + \<i> * f 1) / (1 + \<i>) else if i = 1 then f 1 else 0)"
  by (auto simp: tdma_def ex_fcn_ops_def entry_def fun_eq_iff numeral_2_eq_2 add_divide_distrib)

subsection \<open>FCN: one step in closed form\<close>

lemma fcn_rhs_cong2:
  "(\<And>i. i < N_RADI_NODES cfg \<Longrightarrow> b i l = b' i l) \<Longrightarrow>
   (\<And>i. i < N_RADI_NODES cfg \<Longrightarrow> w i l 0 = w' i l 0) \<Longrightarrow>
   fcn_rhs cfg ops k b w l = fcn_rhs cfg ops k b' w' l"
  by (auto simp: fcn_rhs_def fun_eq_iff col_def cong: if_cong)

lemma fcn_step_field:
  assumes "i < N_RADI_NODES cfg" "l < N_TIME_NODES cfg"
  shows "fcn_envelope (fcn_step cfg sp ops k s) i l =
     sp (left_cn_matrix ops) (N_RADI_NODES cfg)
       (fcn_rhs cfg ops k (\<lambda>i l. spectral_line cfg (row (N_TIME_NODES cfg) (fcn_envelope s) i) l)
          (fcn_state.w_array s) l) i"
proof -
  have "fcn_rhs cfg ops k (\<lambda>i l. if i < N_RADI_NODES cfg \<and> l < N_TIME_NODES cfg
          then spectral_line cfg (row (N_TIME_NODES cfg) (fcn_envelope s) i) l
          else fcn_state.b_array s i l) (fcn_state.w_array s) l
      = fcn_rhs cfg ops k (\<lambda>i l. spectral_line cfg (row (N_TIME_NODES cfg) (fcn_envelope s) i) l)
          (fcn_state.w_array s) l"
    by (rule fcn_rhs_cong2) (simp_all add: assms(2))
  then show ?thesis
    using assms by (simp add: fcn_step_facts(3))
qed

lemma fcn_step_history:
  assumes "i < N_RADI_NODES cfg" "l < N_TIME_NODES cfg" "p < 2"
  shows "fcn_state.w_array (fcn_step cfg sp ops k s) i l p =
     source cfg (spectral_line cfg (row (N_TIME_NODES cfg) (fcn_envelope s) i) l)"
  using assms by (simp add: fcn_step_facts(4))

subsection \<open>FCN: the example run\<close>

lemma ex_fcn_dispersed:
  "l < 2 \<Longrightarrow> spectral_line ex_fcn (row 2 E i) l = E i l"
  by (simp add: spectral_line_no_dispersion row_def)

lemma ex_fcn_rhs:
  "l < 2 \<Longrightarrow> fcn_rhs ex_fcn ex_fcn_ops k (\<lambda>i l. spectral_line ex_fcn (row 2 E i) l) w l =
     (\<lambda>i. if i = 0
          then (1 - \<i>) * E 0 l + \<i> * E 1 l
               + 0.5 * (3 * source ex_fcn (E 0 l) - (if k = 0 then source ex_fcn (E 0 l) else w 0 l 0))
          else if i = 1
          then 0.5 * (3 * source ex_fcn (E 1 l) - (if k = 0 then source ex_fcn (E 1 l) else w 1 l 0))
          else 0)"
  by (auto simp: fcn_rhs_def ex_fcn_matvec ex_fcn_dispersed col_def fun_eq_iff)

lemma ex_fcn_step:
  assumes "l < 2"
  shows "fcn_envelope (fcn_step ex_fcn tdma ex_fcn_ops k s) 0 l =
      ((1 - \<i>) * fcn_envelope s 0 l + \<i> * fcn_envelope s (Suc 0) l
        + 0.5 * (3 * source ex_fcn (fcn_envelope s 0 l)
                  - (if k = 0 then source ex_fcn (fcn_envelope s 0 l) else fcn_state.w_array s 0 l 0))
        + \<i> * (0.5 * (3 * source ex_fcn (fcn_envelope s (Suc 0) l)
                  - (if k = 0 then source ex_fcn (fcn_envelope s (Suc 0) l)
                     else fcn_state.w_array s (Suc 0) l 0))))
       / (1 + \<i>)"
    and "fcn_envelope (fcn_step ex_fcn tdma ex_fcn_ops k s) (Suc 0) l =
      0.5 * (3 * source ex_fcn (fcn_envelope s (Suc 0) l)
               - (if k = 0 then source ex_fcn (fcn_envelope s (Suc 0) l)
                  else fcn_state.w_array s (Suc 0) l 0))"
  using assms fcn_step_field [of 0 ex_fcn l tdma ex_fcn_ops k s]
    fcn_step_field [of "Suc 0" ex_fcn l tdma ex_fcn_ops k s]
  by (simp_all add: ex_fcn_rhs ex_fcn_tdma)

lemma ex_fcn_step_w:
  assumes "i < 2" "l < 2" "p < 2"
  shows "fcn_state.w_array (fcn_step ex_fcn tdma ex_fcn_ops k s) i l p = source ex_fcn (fcn_envelope s i l)"
  using assms fcn_step_history [of i ex_fcn l p tdma ex_fcn_ops k s]
  by (simp add: ex_fcn_dispersed)

lemma ex_fcn_after_1:
  assumes l: "l < 2"
  defines "s1 \<equiv> fcn_loop ex_fcn tdma ex_fcn_ops (Suc 0) (fcn_init ex_fcn axis_beam fcn_mem0)"
  shows "fcn_envelope s1 0 l = 0"
    and "fcn_envelope s1 (Suc 0) l = 0"
    and "fcn_state.w_array s1 0 l 0 = - 1 + \<i>"
    and "fcn_state.w_array s1 (Suc 0) l 0 = 0"
proof -
  have s1: "s1 = fcn_step ex_fcn tdma ex_fcn_ops 0 (fcn_init ex_fcn axis_beam fcn_mem0)"
    by (simp add: s1_def fcn_loop_Suc)
  show "fcn_envelope s1 0 l = 0"
    unfolding s1 ex_fcn_step(1) [OF l] fcn_init_envelope
    by (simp add: axis_beam_def ex_fcn_source complex_eq_iff Re_divide Im_divide)
  show "fcn_envelope s1 (Suc 0) l = 0"
    unfolding s1 ex_fcn_step(2) [OF l] fcn_init_envelope
    by (simp add: axis_beam_def)
  show "fcn_state.w_array s1 0 l 0 = - 1 + \<i>"
    unfolding s1 using l
    by (simp add: ex_fcn_step_w fcn_init_envelope axis_beam_def ex_fcn_source)
  show "fcn_state.w_array s1 (Suc 0) l 0 = 0"
    unfolding s1 using l
    by (simp add: ex_fcn_step_w fcn_init_envelope axis_beam_def)
qed

lemma ex_fcn_after_2:
  assumes l: "l < 2"
  shows "fcn_envelope (fcn_loop ex_fcn tdma ex_fcn_ops (Suc (Suc 0)) (fcn_init ex_fcn axis_beam fcn_mem0)) 0 l
     = - \<i> / 2"
  unfolding fcn_loop_Suc [of _ _ _ "Suc 0"] ex_fcn_step(1) [OF l] ex_fcn_after_1 [OF l]
  by (simp add: complex_eq_iff Re_divide Im_divide power2_eq_square)

subsection \<open>ADI: one step in closed form\<close>

lemma adi_half1_rhs:
  fixes cfg sp ops k s
  assumes "i < N_RADI_NODES cfg" "l < N_TIME_NODES cfg"
  defines "s1 \<equiv> adi_half1 cfg sp ops k s"
  shows "adi_state.b_array s1 i l
           = matvec (right_cn_matrix_t ops) (N_TIME_NODES cfg) (row (N_TIME_NODES cfg) (adi_envelope s) i) l"
    and "adi_state.w_array s1 i l 1 = source cfg (adi_envelope s i l)"
    and "adi_state.w_array s1 i l 0
           = (if k = 0 then source cfg (adi_envelope s i l) else adi_state.w_array s i l 0)"
    and "adi_state.c_array s1 i l
           = sp (left_cn_matrix_r ops) (N_RADI_NODES cfg)
               (\<lambda>i. if i < N_RADI_NODES cfg
                    then adi_state.b_array s1 i l
                         + 0.25 * (3 * adi_state.w_array s1 i l 1 - adi_state.w_array s1 i l 0)
                    else 0) i"
proof -
  note F = adi_half1_facts [where cfg=cfg and sp=sp and ops=ops and k=k and s=s, folded s1_def]
  show b: "adi_state.b_array s1 i l
           = matvec (right_cn_matrix_t ops) (N_TIME_NODES cfg) (row (N_TIME_NODES cfg) (adi_envelope s) i) l"
    using assms(1,2) by (simp add: F(5))
  show w1: "adi_state.w_array s1 i l 1 = source cfg (adi_envelope s i l)"
    using assms(1,2) by (simp add: F(6))
  show w0: "adi_state.w_array s1 i l 0
           = (if k = 0 then source cfg (adi_envelope s i l) else adi_state.w_array s i l 0)"
    using assms(1,2) by (simp add: F(6))
  have "(\<lambda>i. if i < N_RADI_NODES cfg
            then adi_state.b_array s1 i l
                 + 0.25 * (3 * adi_state.w_array s1 i l 1 - adi_state.w_array s1 i l 0)
            else 0)
      = (\<lambda>i. if i < N_RADI_NODES cfg
            then (if i < N_RADI_NODES cfg \<and> l < N_TIME_NODES cfg
                  then matvec (right_cn_matrix_t ops) (N_TIME_NODES cfg)
                         (row (N_TIME_NODES cfg) (adi_envelope s) i) l
                  else adi_state.b_array s i l)
                 + 0.25 * (3 * source cfg (adi_envelope s i l)
                            - (if k = 0 then source cfg (adi_envelope s i l)
                               else adi_state.w_array s i l 0))
            else 0)"
    using assms(2) by (auto simp: fun_eq_iff F(5) F(6))
  then show "adi_state.c_array s1 i l
           = sp (left_cn_matrix_r ops) (N_RADI_NODES cfg)
               (\<lambda>i. if i < N_RADI_NODES cfg
                    then adi_state.b_array s1 i l
                         + 0.25 * (3 * adi_state.w_array s1 i l 1 - adi_state.w_array s1 i l 0)
                    else 0) i"
    using assms(1,2) by (simp add: F(7))
qed

lemma adi_half2_rhs:
  fixes cfg sp ops k s
  assumes "i < N_RADI_NODES cfg" "l < N_TIME_NODES cfg"
  defines "s3 \<equiv> adi_half2 cfg sp ops k s"
  shows "adi_state.b_array s3 i l
           = matvec (right_cn_matrix_r ops) (N_RADI_NODES cfg) (col (N_RADI_NODES cfg) (adi_state.c_array s) l) i"
    and "adi_state.w_array s3 i l 1
           = (if k = 0 then adi_state.w_array s i l 1 else source cfg (adi_state.c_array s i l))"
    and "adi_state.w_array s3 i l 0
           = (if k = 0 then source cfg (adi_state.c_array s i l) else adi_state.w_array s i l 0)"
    and "adi_state.envelope_store s3 i l
           = sp (left_cn_matrix_t ops) (N_TIME_NODES cfg)
               (\<lambda>l. if l < N_TIME_NODES cfg
                    then adi_state.b_array s3 i l
                         + 0.25 * (3 * adi_state.w_array s3 i l 1 - adi_state.w_array s3 i l 0)
                    else 0) l"
proof -
  note F = adi_half2_facts [where cfg=cfg and sp=sp and ops=ops and k=k and s=s, folded s3_def]
  show "adi_state.b_array s3 i l
           = matvec (right_cn_matrix_r ops) (N_RADI_NODES cfg) (col (N_RADI_NODES cfg) (adi_state.c_array s) l) i"
    using assms(1,2) by (simp add: F(4))
  show "adi_state.w_array s3 i l 1
           = (if k = 0 then adi_state.w_array s i l 1 else source cfg (adi_state.c_array s i l))"
    using assms(1,2) by (simp add: F(5))
  show "adi_state.w_array s3 i l 0
           = (if k = 0 then source cfg (adi_state.c_array s i l) else adi_state.w_array s i l 0)"
    using assms(1,2) by (simp add: F(5))
  have "(\<lambda>l. if l < N_TIME_NODES cfg
            then adi_state.b_array s3 i l
                 + 0.25 * (3 * adi_state.w_array s3 i l 1 - adi_state.w_array s3 i l 0)
            else 0)
      = (\<lambda>l. if l < N_TIME_NODES cfg
            then (if l < N_TIME_NODES cfg \<and> i < N_RADI_NODES cfg
                  then matvec (right_cn_matrix_r ops) (N_RADI_NODES cfg)
                         (col (N_RADI_NODES cfg) (adi_state.c_array s) l) i
                  else adi_state.b_array s i l)
                 + 0.25 * (3 * (if k = 0 then adi_state.w_array s i l 1
                                else source cfg (adi_state.c_array s i l))
                            - (if k = 0 then source cfg (adi_state.c_array s i l)
                               else adi_state.w_array s i l 0))
            else 0)"
    using assms(1) by (auto simp: fun_eq_iff F(4) F(5))
  then show "adi_state.envelope_store s3 i l
           = sp (left_cn_matrix_t ops) (N_TIME_NODES cfg)
               (\<lambda>l. if l < N_TIME_NODES cfg
                    then adi_state.b_array s3 i l
                         + 0.25 * (3 * adi_state.w_array s3 i l 1 - adi_state.w_array s3 i l 0)
                    else 0) l"
    using assms(1,2) by (simp add: F(6))
qed

lemma adi_step_envelope:
  "adi_envelope (adi_step cfg sp ops k s)
     = adi_state.envelope_store (adi_half2 cfg sp ops k (adi_rotate cfg (adi_half1 cfg sp ops k s)))"
  by (simp add: adi_step_def adi_commit_simps)

lemma adi_step_history:
  "adi_state.w_array (adi_step cfg sp ops k s)
     = rotate_history (N_RADI_NODES cfg) (N_TIME_NODES cfg)
         (adi_state.w_array (adi_half2 cfg sp ops k (adi_rotate cfg (adi_half1 cfg sp ops k s))))"
  by (simp add: adi_step_def adi_commit_simps)

lemma fcn_half2_rhs:
  fixes cfg sp ops k s
  assumes "i < N_RADI_NODES cfg" "l < N_TIME_NODES cfg"
  defines "h \<equiv> fcn_half2 cfg sp ops k (fcn_half1 cfg s)"
  shows "fcn_state.b_array h i l = spectral_line cfg (row (N_TIME_NODES cfg) (fcn_envelope s) i) l"
    and "fcn_state.w_array h i l 1 = source cfg (fcn_state.b_array h i l)"
    and "fcn_state.w_array h i l 0
           = (if k = 0 then source cfg (fcn_state.b_array h i l) else fcn_state.w_array s i l 0)"
    and "fcn_state.envelope_store h i l
           = sp (left_cn_matrix ops) (N_RADI_NODES cfg)
               (\<lambda>i. if i < N_RADI_NODES cfg
                    then matvec (right_cn_matrix ops) (N_RADI_NODES cfg)
                           (col (N_RADI_NODES cfg) (fcn_state.b_array h) l) i
                         + 0.5 * (3 * fcn_state.w_array h i l 1 - fcn_state.w_array h i l 0)
                    else 0) i"
proof -
  note A = fcn_half1_facts [of cfg "N_RADI_NODES cfg" s, folded fcn_half1_def]
  have aw: "fcn_state.w_array (fcn_half1 cfg s) = fcn_state.w_array s"
    and ast: "fcn_state.envelope_store (fcn_half1 cfg s) = fcn_state.envelope_store s"
    using A by simp_all
  note H = fcn_half2_loop [of cfg sp ops k "N_TIME_NODES cfg" "fcn_half1 cfg s",
      folded fcn_half2_def, folded h_def, unfolded aw ast]
  have hb: "fcn_state.b_array h = fcn_state.b_array (fcn_half1 cfg s)"
    using H by simp
  have hw: "fcn_state.w_array h =
        (\<lambda>i l p. if l < N_TIME_NODES cfg \<and> i < N_RADI_NODES cfg \<and> (p = 1 \<or> p = 0 \<and> k = 0)
           then source cfg (fcn_state.b_array h i l) else fcn_state.w_array s i l p)"
    unfolding hb using H by simp
  have hst: "fcn_state.envelope_store h =
        (\<lambda>i l. if l < N_TIME_NODES cfg \<and> i < N_RADI_NODES cfg
           then sp (left_cn_matrix ops) (N_RADI_NODES cfg)
                  (fcn_rhs cfg ops k (fcn_state.b_array h) (fcn_state.w_array s) l) i
           else fcn_state.envelope_store s i l)"
    unfolding hb using H by simp
  show "fcn_state.b_array h i l = spectral_line cfg (row (N_TIME_NODES cfg) (fcn_envelope s) i) l"
    using A assms(1,2) by (simp add: hb)
  show "fcn_state.w_array h i l 1 = source cfg (fcn_state.b_array h i l)"
    using assms(1,2) by (simp add: hw)
  show "fcn_state.w_array h i l 0
           = (if k = 0 then source cfg (fcn_state.b_array h i l) else fcn_state.w_array s i l 0)"
    using assms(1,2) by (simp add: hw)
  have "(\<lambda>i. if i < N_RADI_NODES cfg
                    then matvec (right_cn_matrix ops) (N_RADI_NODES cfg)
                           (col (N_RADI_NODES cfg) (fcn_state.b_array h) l) i
                         + 0.5 * (3 * fcn_state.w_array h i l 1 - fcn_state.w_array h i l 0)
                    else 0)
      = fcn_rhs cfg ops k (fcn_state.b_array h) (fcn_state.w_array s) l"
    using assms(2) by (auto simp: fun_eq_iff fcn_rhs_def hw)
  then show "fcn_state.envelope_store h i l
           = sp (left_cn_matrix ops) (N_RADI_NODES cfg)
               (\<lambda>i. if i < N_RADI_NODES cfg
                    then matvec (right_cn_matrix ops) (N_RADI_NODES cfg)
                           (col (N_RADI_NODES cfg) (fcn_state.b_array h) l) i
                         + 0.5 * (3 * fcn_state.w_array h i l 1 - fcn_state.w_array h i l 0)
                    else 0) i"
    using assms(1,2) by (simp add: hst)
qed

section \<open>The claims about the propagation loop\<close>

lemma ex_fcn_main:
  "fcn_main ex_fcn tdma axis_beam fcn_mem0
     = Inr (fcn_propagate ex_fcn tdma ex_fcn_ops (fcn_init ex_fcn axis_beam fcn_mem0))"
  by (simp add: fcn_main_def ex_fcn_build)

text \<open>
  C1. In the ADI scheme row \<open>i\<close> of the trace is the axis row of the field after \<open>i\<close>
  steps (\<open>adi_trace_rows\<close>). In the FCN scheme it is not: row 1 holds the axis row of the
  initial field after the spectral half-step alone (\<open>fcn_trace_row1\<close>), and row \<open>i + 1\<close>
  holds the field after \<open>i\<close> steps (\<open>fcn_trace_rows\<close>). On the example run of three
  configured steps the field on the axis is \<open>0\<close> after one step and \<open>-\<i>/2\<close> after two, while
  rows 1, 2 and 3 of the trace hold \<open>1\<close>, \<open>0\<close> and \<open>-\<i>/2\<close>.
\<close>

theorem fcn_trace_lags:
  "(case fcn_main ex_fcn tdma axis_beam fcn_mem0 of
      Inl e \<Rightarrow> False
    | Inr s \<Rightarrow>
        fcn_state.envelope_axis s 0 0 = 1
      \<and> fcn_state.envelope_axis s 1 0 = 1
      \<and> fcn_state.envelope_axis s 2 0 = 0
      \<and> fcn_state.envelope_axis s 3 0 = - \<i> / 2)
   \<and> fcn_envelope (fcn_loop ex_fcn tdma ex_fcn_ops 1 (fcn_init ex_fcn axis_beam fcn_mem0)) 0 0 = 0
   \<and> fcn_envelope (fcn_loop ex_fcn tdma ex_fcn_ops 2 (fcn_init ex_fcn axis_beam fcn_mem0)) 0 0
        = - \<i> / 2"
proof -
  let ?init = "fcn_init ex_fcn axis_beam fcn_mem0"
  let ?s = "fcn_propagate ex_fcn tdma ex_fcn_ops ?init"
  have l: "(0::nat) < 2" by simp
  have r0: "fcn_state.envelope_axis ?s 0 0 = 1"
    by (simp add: fcn_propagate_def fcn_loop_axis_zero fcn_init_axis axis_beam_def)
  have r1: "fcn_state.envelope_axis ?s 1 0 = 1"
    using fcn_trace_row1 [of ex_fcn 0 tdma ex_fcn_ops axis_beam fcn_mem0]
    by (simp add: ex_fcn_dispersed axis_beam_def)
  have r2: "fcn_state.envelope_axis ?s (Suc 1) 0
      = fcn_envelope (fcn_loop ex_fcn tdma ex_fcn_ops 1 ?init) (AXIS_NODE ex_fcn) 0"
    by (rule fcn_trace_rows) simp_all
  have r3: "fcn_state.envelope_axis ?s (Suc 2) 0
      = fcn_envelope (fcn_loop ex_fcn tdma ex_fcn_ops 2 ?init) (AXIS_NODE ex_fcn) 0"
    by (rule fcn_trace_rows) simp_all
  have a1: "fcn_envelope (fcn_loop ex_fcn tdma ex_fcn_ops 1 ?init) 0 0 = 0"
    using ex_fcn_after_1(1) [OF l] by simp
  have a2: "fcn_envelope (fcn_loop ex_fcn tdma ex_fcn_ops 2 ?init) 0 0 = - \<i> / 2"
    using ex_fcn_after_2 [OF l] by (simp add: numeral_2_eq_2)
  have "fcn_state.envelope_axis ?s 2 0 = 0"
    using r2 a1 by (simp add: numeral_2_eq_2)
  moreover have "fcn_state.envelope_axis ?s 3 0 = - \<i> / 2"
    using r3 a2 by (simp add: numeral_3_eq_3 numeral_2_eq_2)
  ultimately show ?thesis
    using r0 r1 a1 a2 by (simp add: ex_fcn_main)
qed

text \<open>
  C2. The ADI loop runs \<^verbatim>\<open>N_STEPS\<close> iterations; the FCN loop runs \<^verbatim>\<open>N_STEPS - 1\<close>. Configured
  for one step (the example configuration with \<^verbatim>\<open>N_STEPS = 1\<close>), the FCN script returns the
  initial field, amplitude \<open>1\<close> on the axis, whereas one propagation step gives \<open>0\<close> there.
\<close>

theorem fcn_runs_one_step_less:
  "(case fcn_main (ex_fcn\<lparr>N_STEPS := 1\<rparr>) tdma axis_beam fcn_mem0 of
      Inl e \<Rightarrow> False
    | Inr s \<Rightarrow> fcn_envelope s = axis_beam \<and> fcn_envelope s 0 0 = 1)
   \<and> fcn_envelope (fcn_step ex_fcn tdma ex_fcn_ops 0 (fcn_init ex_fcn axis_beam fcn_mem0)) 0 0 = 0"
proof -
  have b: "fcn_build (ex_fcn\<lparr>N_STEPS := 1\<rparr>) = Inr ex_fcn_ops"
    by (simp add: fcn_build_def ex_fcn_def ex_fcn_ops_def crank_nicolson_diags_def set_ends_def
        Let_def numeral_2_eq_2 complex_eq_iff)
  have "fcn_main (ex_fcn\<lparr>N_STEPS := 1\<rparr>) tdma axis_beam fcn_mem0
      = Inr (fcn_init (ex_fcn\<lparr>N_STEPS := 1\<rparr>) axis_beam fcn_mem0)"
    unfolding fcn_main_def b by (simp add: fcn_propagate_def)
  moreover have "fcn_envelope (fcn_step ex_fcn tdma ex_fcn_ops 0 (fcn_init ex_fcn axis_beam fcn_mem0)) 0 0 = 0"
    using ex_fcn_after_1(1) [of 0] by (simp add: fcn_loop_Suc)
  ultimately show ?thesis
    by (simp add: fcn_init_envelope axis_beam_def)
qed

lemma ex_adi_simps [simp]:
  "N_RADI_NODES ex_adi = 2" "N_TIME_NODES ex_adi = 2" "AXIS_NODE ex_adi = 0"
  by (simp_all add: ex_adi_def)

lemma ex_adi_source: "source ex_adi 1 = \<i>" "source ex_adi (\<i> / 2) = - 1 / 8"
  by (simp_all add: source_def nlin_def ex_adi_def norm_divide power2_eq_square)

lemma ex_adi_matvec_t: "matvec (right_cn_matrix_t ex_adi_ops) 2 v = (\<lambda>i. 0)"
  by (auto simp: matvec_def ex_adi_ops_def entry_def fun_eq_iff numeral_2_eq_2 less_Suc_eq)

lemma ex_adi_tdma_r:
  "tdma (left_cn_matrix_r ex_adi_ops) 2 f =
     (\<lambda>i. if i = 0 then (f 0 + \<i> * f 1) / (1 + \<i>) else if i = 1 then f 1 else 0)"
  by (auto simp: tdma_def ex_adi_ops_def entry_def fun_eq_iff numeral_2_eq_2 add_divide_distrib)

lemma ex_adi_half1:
  fixes i l :: nat
  assumes i: "i < 2" and l: "l < 2"
  defines "s1 \<equiv> adi_half1 ex_adi tdma ex_adi_ops 0 (adi_init ex_adi flat_beam adi_mem0)"
  shows "adi_state.w_array s1 i l 0 = \<i>"
    and "adi_state.w_array s1 i l 1 = \<i>"
    and "adi_state.c_array s1 i l = \<i> / 2"
proof -
  have i': "i < N_RADI_NODES ex_adi" and l': "l < N_TIME_NODES ex_adi"
    using i l by simp_all
  note A = adi_half1_rhs [OF _ l', of _ tdma ex_adi_ops 0 "adi_init ex_adi flat_beam adi_mem0",
      folded s1_def, unfolded adi_init_envelope]
  have b: "adi_state.b_array s1 j l = 0" if "j < 2" for j
    using A(1) [of j] that by (simp add: ex_adi_matvec_t)
  have w1: "adi_state.w_array s1 j l 1 = \<i>" if "j < 2" for j
    using A(2) [of j] that by (simp add: flat_beam_def ex_adi_source)
  have w0: "adi_state.w_array s1 j l 0 = \<i>" if "j < 2" for j
    using A(3) [of j] that by (simp add: flat_beam_def ex_adi_source)
  show "adi_state.w_array s1 i l 0 = \<i>" "adi_state.w_array s1 i l 1 = \<i>"
    using w0 w1 i by simp_all
  have f: "(\<lambda>j. if j < N_RADI_NODES ex_adi
            then adi_state.b_array s1 j l
                 + 0.25 * (3 * adi_state.w_array s1 j l 1 - adi_state.w_array s1 j l 0)
            else 0) = (\<lambda>j. if j < 2 then \<i> / 2 else 0)"
    by (auto simp: fun_eq_iff b w0 w1 [unfolded One_nat_def])
  have "adi_state.c_array s1 i l = tdma (left_cn_matrix_r ex_adi_ops) 2 (\<lambda>j. if j < 2 then \<i> / 2 else 0) i"
    using A(4) [OF i'] unfolding f by simp
  also have "\<dots> = \<i> / 2"
    using i by (auto simp: ex_adi_tdma_r two_cases complex_eq_iff Re_divide Im_divide)
  finally show "adi_state.c_array s1 i l = \<i> / 2" .
qed


subsection \<open>The elimination solves the example systems\<close>

lemma one_plus_ii_nonzero: "1 + \<i> \<noteq> 0"
  by (simp add: complex_eq_iff)

lemma ex_left_matvec:
  "i < 2 \<Longrightarrow> matvec ([0], [1 + \<i>, 1], [- \<i>]) 2 g i = (if i = 0 then (1 + \<i>) * g 0 - \<i> * g 1 else g 1)"
  by (auto simp: matvec_def entry_def numeral_2_eq_2 less_Suc_eq)

lemma ex_fcn_tdma_solves:
  assumes "i < 2"
  shows "matvec (left_cn_matrix ex_fcn_ops) 2 (tdma (left_cn_matrix ex_fcn_ops) 2 f) i = f i"
proof -
  have "matvec (left_cn_matrix ex_fcn_ops) 2 g i = (if i = 0 then (1 + \<i>) * g 0 - \<i> * g 1 else g 1)" for g
    using ex_left_matvec [OF assms] by (simp add: ex_fcn_ops_def)
  then show ?thesis
    unfolding ex_fcn_tdma using assms one_plus_ii_nonzero by (auto simp: two_cases)
qed

lemma ex_adi_tdma_solves:
  assumes "i < 2"
  shows "matvec (left_cn_matrix_r ex_adi_ops) 2 (tdma (left_cn_matrix_r ex_adi_ops) 2 f) i = f i"
proof -
  have "matvec (left_cn_matrix_r ex_adi_ops) 2 g i = (if i = 0 then (1 + \<i>) * g 0 - \<i> * g 1 else g 1)" for g
    using ex_left_matvec [OF assms] by (simp add: ex_adi_ops_def)
  then show ?thesis
    unfolding ex_adi_tdma_r using assms one_plus_ii_nonzero by (auto simp: two_cases)
qed


subsection \<open>The scripts abort on the configuration only\<close>







subsection \<open>History of the nonlinear source\<close>

lemma fcn_bootstrap:
  assumes "i < N_RADI_NODES cfg" "l < N_TIME_NODES cfg"
  shows "fcn_state.w_array (fcn_half2 cfg sp ops 0 (fcn_half1 cfg s)) i l 0
     = fcn_state.w_array (fcn_half2 cfg sp ops 0 (fcn_half1 cfg s)) i l 1"
  using fcn_half2_rhs(2,3) [OF assms, of sp ops 0 s] by simp

lemma fcn_old_is_previous_new:
  assumes "i < N_RADI_NODES cfg" "l < N_TIME_NODES cfg"
  shows "fcn_state.w_array (fcn_half2 cfg sp ops (Suc k) (fcn_half1 cfg (fcn_step cfg sp ops k s))) i l 0
     = fcn_state.w_array (fcn_half2 cfg sp ops k (fcn_half1 cfg s)) i l 1"
proof -
  have "fcn_state.w_array (fcn_half2 cfg sp ops (Suc k) (fcn_half1 cfg (fcn_step cfg sp ops k s))) i l 0
      = fcn_state.w_array (fcn_step cfg sp ops k s) i l 0"
    using fcn_half2_rhs(3) [OF assms, of sp ops "Suc k" "fcn_step cfg sp ops k s"] by simp
  also have "\<dots> = source cfg (spectral_line cfg (row (N_TIME_NODES cfg) (fcn_envelope s) i) l)"
    using fcn_step_history [OF assms, of 0 sp ops k s] by simp
  also have "\<dots> = fcn_state.w_array (fcn_half2 cfg sp ops k (fcn_half1 cfg s)) i l 1"
    using fcn_half2_rhs(1,2) [OF assms, of sp ops k s] by simp
  finally show ?thesis .
qed

lemma adi_bootstrap_first_half:
  assumes "i < N_RADI_NODES cfg" "l < N_TIME_NODES cfg"
  shows "adi_state.w_array (adi_half1 cfg sp ops 0 s) i l 0
     = adi_state.w_array (adi_half1 cfg sp ops 0 s) i l 1"
  using adi_half1_rhs(2,3) [OF assms, of sp ops 0 s] by simp

lemma adi_bootstrap_second_half:
  assumes "i < N_RADI_NODES cfg" "l < N_TIME_NODES cfg"
  shows "adi_state.w_array (adi_half2 cfg sp ops 0 (adi_rotate cfg (adi_half1 cfg sp ops 0 s))) i l 0
     = source cfg (adi_state.c_array (adi_half1 cfg sp ops 0 s) i l)"
    and "adi_state.w_array (adi_half2 cfg sp ops 0 (adi_rotate cfg (adi_half1 cfg sp ops 0 s))) i l 1
     = source cfg (adi_envelope s i l)"
  using adi_half2_rhs(2,3) [OF assms, of sp ops 0 "adi_rotate cfg (adi_half1 cfg sp ops 0 s)"]
    adi_half1_rhs(2) [OF assms, of sp ops 0 s] assms
  by (simp_all add: rotate_history_def)

lemma adi_old_is_previous_new:
  assumes "i < N_RADI_NODES cfg" "l < N_TIME_NODES cfg"
  shows "adi_state.w_array (adi_half1 cfg sp ops (Suc k) (adi_step cfg sp ops k s)) i l 0
     = adi_state.w_array (adi_half2 cfg sp ops k (adi_rotate cfg (adi_half1 cfg sp ops k s))) i l 1"
    and "adi_state.w_array
          (adi_half2 cfg sp ops (Suc k) (adi_rotate cfg (adi_half1 cfg sp ops (Suc k) s))) i l 0
     = adi_state.w_array (adi_half1 cfg sp ops (Suc k) s) i l 1"
proof -
  show "adi_state.w_array (adi_half1 cfg sp ops (Suc k) (adi_step cfg sp ops k s)) i l 0
     = adi_state.w_array (adi_half2 cfg sp ops k (adi_rotate cfg (adi_half1 cfg sp ops k s))) i l 1"
    using adi_half1_rhs(3) [OF assms, of sp ops "Suc k" "adi_step cfg sp ops k s"] assms
    by (simp add: adi_step_history rotate_history_def)
  show "adi_state.w_array
          (adi_half2 cfg sp ops (Suc k) (adi_rotate cfg (adi_half1 cfg sp ops (Suc k) s))) i l 0
     = adi_state.w_array (adi_half1 cfg sp ops (Suc k) s) i l 1"
    using adi_half2_rhs(3) [OF assms, of sp ops "Suc k" "adi_rotate cfg (adi_half1 cfg sp ops (Suc k) s)"]
      assms
    by (simp add: rotate_history_def)
qed


text \<open>
  C4. In the FCN scheme and in the first half-step of the ADI scheme the bootstrap of step
  0 fills both planes of \<^verbatim>\<open>w_array\<close> with the same source, and every later evaluation
  finds in plane 0 what the evaluation before it left in plane 1. The second half-step of
  the ADI scheme at step 0 assigns plane 0 only: plane 1 still holds the source of the
  initial field. On the example run from the flat beam the second half-step of step 0
  extrapolates from old \<open>= -1/8\<close>, the source of the intermediate field \<open>\<i>/2\<close>, and new
  \<open>= \<i>\<close>, the source of the initial field.
\<close>

theorem adi_bootstrap_second_half_stale:
  "adi_build ex_adi = Inr ex_adi_ops
   \<and> adi_state.w_array (adi_half1 ex_adi tdma ex_adi_ops 0 (adi_init ex_adi flat_beam adi_mem0)) 0 0 0 = \<i>
   \<and> adi_state.w_array (adi_half1 ex_adi tdma ex_adi_ops 0 (adi_init ex_adi flat_beam adi_mem0)) 0 0 1 = \<i>
   \<and> adi_state.c_array (adi_half1 ex_adi tdma ex_adi_ops 0 (adi_init ex_adi flat_beam adi_mem0)) 0 0
        = \<i> / 2
   \<and> adi_state.w_array
        (adi_half2 ex_adi tdma ex_adi_ops 0
          (adi_rotate ex_adi (adi_half1 ex_adi tdma ex_adi_ops 0 (adi_init ex_adi flat_beam adi_mem0))))
        0 0 0 = - 1 / 8
   \<and> adi_state.w_array
        (adi_half2 ex_adi tdma ex_adi_ops 0
          (adi_rotate ex_adi (adi_half1 ex_adi tdma ex_adi_ops 0 (adi_init ex_adi flat_beam adi_mem0))))
        0 0 1 = \<i>"
proof -
  let ?s1 = "adi_half1 ex_adi tdma ex_adi_ops 0 (adi_init ex_adi flat_beam adi_mem0)"
  have z: "(0::nat) < 2" by simp
  have z': "0 < N_RADI_NODES ex_adi" "0 < N_TIME_NODES ex_adi" by simp_all
  note H = ex_adi_half1 [OF z z]
  note B = adi_half2_rhs [OF z', of tdma ex_adi_ops 0 "adi_rotate ex_adi ?s1"]
  have old: "adi_state.w_array (adi_half2 ex_adi tdma ex_adi_ops 0 (adi_rotate ex_adi ?s1)) 0 0 0 = - 1 / 8"
    unfolding B(3) by (simp add: H ex_adi_source)
  have new: "adi_state.w_array (adi_half2 ex_adi tdma ex_adi_ops 0 (adi_rotate ex_adi ?s1)) 0 0 1 = \<i>"
    unfolding B(2) using H(2) by (simp add: rotate_history_def)
  show ?thesis
    by (intro conjI ex_adi_build H old new)
qed

lemma matvec_of_zero: "(\<And>j. j < n \<Longrightarrow> v j = 0) \<Longrightarrow> matvec A n v i = 0"
  by (simp add: matvec_def)

lemma fft_of_zero: "(\<And>j. j < n \<Longrightarrow> x j = 0) \<Longrightarrow> fft n x m = 0"
  by (simp add: fft_def)

lemma spectral_line_of_zero:
  assumes "\<And>j. j < N_TIME_NODES cfg \<Longrightarrow> x j = 0"
  shows "spectral_line cfg x l = 0"
  using assms by (simp add: spectral_line_def ifft_def fft_of_zero)

lemma adi_zero_step:
  assumes sr: "\<And>i. i < N_RADI_NODES cfg \<Longrightarrow> sp (left_cn_matrix_r ops) (N_RADI_NODES cfg) (\<lambda>i. 0) i = 0"
    and st: "\<And>l. l < N_TIME_NODES cfg \<Longrightarrow> sp (left_cn_matrix_t ops) (N_TIME_NODES cfg) (\<lambda>l. 0) l = 0"
    and E: "\<And>i l. i < N_RADI_NODES cfg \<Longrightarrow> l < N_TIME_NODES cfg \<Longrightarrow> adi_envelope s i l = 0"
    and W: "k = 0 \<or> (\<forall>i<N_RADI_NODES cfg. \<forall>l<N_TIME_NODES cfg. adi_state.w_array s i l 0 = 0)"
    and i: "i < N_RADI_NODES cfg" and l: "l < N_TIME_NODES cfg"
  shows "adi_envelope (adi_step cfg sp ops k s) i l = 0"
    and "adi_state.w_array (adi_step cfg sp ops k s) i l 0 = 0"
    and "adi_state.w_array (adi_step cfg sp ops k s) i l 1 = 0"
proof -
  let ?s1 = "adi_half1 cfg sp ops k s"
  let ?s2 = "adi_rotate cfg ?s1"
  let ?s3 = "adi_half2 cfg sp ops k ?s2"
  have b1: "adi_state.b_array ?s1 j m = 0" if "j < N_RADI_NODES cfg" "m < N_TIME_NODES cfg" for j m
    unfolding adi_half1_rhs(1) [OF that]
    by (rule matvec_of_zero) (simp add: row_def E that)
  have w11: "adi_state.w_array ?s1 j m 1 = 0" if "j < N_RADI_NODES cfg" "m < N_TIME_NODES cfg" for j m
    unfolding adi_half1_rhs(2) [OF that] by (simp add: E that)
  have w10: "adi_state.w_array ?s1 j m 0 = 0" if "j < N_RADI_NODES cfg" "m < N_TIME_NODES cfg" for j m
    unfolding adi_half1_rhs(3) [OF that] using W that by (auto simp: E)
  have f1: "(\<lambda>j. if j < N_RADI_NODES cfg
              then adi_state.b_array ?s1 j m
                   + 0.25 * (3 * adi_state.w_array ?s1 j m 1 - adi_state.w_array ?s1 j m 0)
              else 0) = (\<lambda>j. 0)" if "m < N_TIME_NODES cfg" for m
    using that by (auto simp: fun_eq_iff b1 w11 [unfolded One_nat_def] w10)
  have c1: "adi_state.c_array ?s1 j m = 0" if "j < N_RADI_NODES cfg" "m < N_TIME_NODES cfg" for j m
    unfolding adi_half1_rhs(4) [OF that] f1 [OF that(2)] by (rule sr) (rule that)
  have c2: "adi_state.c_array ?s2 j m = 0" if "j < N_RADI_NODES cfg" "m < N_TIME_NODES cfg" for j m
    using c1 that by simp
  have w2: "adi_state.w_array ?s2 j m p = 0"
    if "j < N_RADI_NODES cfg" "m < N_TIME_NODES cfg" "p = 0 \<or> p = 1" for j m p
    using that w11 [OF that(1,2)] by (auto simp: rotate_history_def)
  have b3: "adi_state.b_array ?s3 j m = 0" if "j < N_RADI_NODES cfg" "m < N_TIME_NODES cfg" for j m
    unfolding adi_half2_rhs(1) [OF that]
    by (rule matvec_of_zero) (simp add: col_def c1 that)
  have w31: "adi_state.w_array ?s3 j m 1 = 0" if "j < N_RADI_NODES cfg" "m < N_TIME_NODES cfg" for j m
    unfolding adi_half2_rhs(2) [OF that] using w2 [OF that, of 1] c2 [OF that] by auto
  have w30: "adi_state.w_array ?s3 j m 0 = 0" if "j < N_RADI_NODES cfg" "m < N_TIME_NODES cfg" for j m
    unfolding adi_half2_rhs(3) [OF that] using w2 [OF that, of 0] c2 [OF that] by auto
  have f3: "(\<lambda>m. if m < N_TIME_NODES cfg
              then adi_state.b_array ?s3 j m
                   + 0.25 * (3 * adi_state.w_array ?s3 j m 1 - adi_state.w_array ?s3 j m 0)
              else 0) = (\<lambda>m. 0)" if "j < N_RADI_NODES cfg" for j
    using that by (auto simp: fun_eq_iff b3 w31 [unfolded One_nat_def] w30)
  have "adi_state.envelope_store ?s3 i l = 0"
    unfolding adi_half2_rhs(4) [OF i l] f3 [OF i] by (rule st) (rule l)
  then show "adi_envelope (adi_step cfg sp ops k s) i l = 0"
    by (simp add: adi_step_envelope)
  show "adi_state.w_array (adi_step cfg sp ops k s) i l 0 = 0"
    and "adi_state.w_array (adi_step cfg sp ops k s) i l 1 = 0"
    using i l w31 [OF i l] by (simp_all add: adi_step_history rotate_history_def)
qed

lemma fcn_zero_step:
  assumes sr: "\<And>i. i < N_RADI_NODES cfg \<Longrightarrow> sp (left_cn_matrix ops) (N_RADI_NODES cfg) (\<lambda>i. 0) i = 0"
    and E: "\<And>i l. i < N_RADI_NODES cfg \<Longrightarrow> l < N_TIME_NODES cfg \<Longrightarrow> fcn_envelope s i l = 0"
    and W: "k = 0 \<or> (\<forall>i<N_RADI_NODES cfg. \<forall>l<N_TIME_NODES cfg. fcn_state.w_array s i l 0 = 0)"
    and i: "i < N_RADI_NODES cfg" and l: "l < N_TIME_NODES cfg"
  shows "fcn_envelope (fcn_step cfg sp ops k s) i l = 0"
    and "fcn_state.w_array (fcn_step cfg sp ops k s) i l 0 = 0"
    and "fcn_state.w_array (fcn_step cfg sp ops k s) i l 1 = 0"
proof -
  have d: "spectral_line cfg (row (N_TIME_NODES cfg) (fcn_envelope s) j) m = 0"
    if "j < N_RADI_NODES cfg" for j m
    by (rule spectral_line_of_zero) (simp add: row_def E that)
  have "fcn_rhs cfg ops k (\<lambda>i l. spectral_line cfg (row (N_TIME_NODES cfg) (fcn_envelope s) i) l)
          (fcn_state.w_array s) l = (\<lambda>i. 0)"
    using W l by (auto simp: fcn_rhs_def fun_eq_iff d col_def matvec_of_zero)
  then show "fcn_envelope (fcn_step cfg sp ops k s) i l = 0"
    unfolding fcn_step_field [OF i l] by (simp add: sr i)
  show "fcn_state.w_array (fcn_step cfg sp ops k s) i l 0 = 0"
    and "fcn_state.w_array (fcn_step cfg sp ops k s) i l 1 = 0"
    using fcn_step_history [OF i l, of 0 sp ops k s] fcn_step_history [OF i l, of 1 sp ops k s]
    by (simp_all add: d i)
qed

text \<open>
  C5, as stated: a field that is identically zero at step \<open>k\<close> need not be zero at step
  \<open>k + 1\<close>. On the example run of the FCN scheme the field is zero at all four nodes
  after the first step, while the nonlinear source kept from that step is \<open>-1 + \<i>\<close> on the
  axis; the second step returns \<open>-\<i>/2\<close> on the axis.
\<close>

theorem zero_field_revives:
  "fcn_build ex_fcn = Inr ex_fcn_ops
   \<and> fcn_envelope (fcn_loop ex_fcn tdma ex_fcn_ops 1 (fcn_init ex_fcn axis_beam fcn_mem0)) 0 0 = 0
   \<and> fcn_envelope (fcn_loop ex_fcn tdma ex_fcn_ops 1 (fcn_init ex_fcn axis_beam fcn_mem0)) 0 1 = 0
   \<and> fcn_envelope (fcn_loop ex_fcn tdma ex_fcn_ops 1 (fcn_init ex_fcn axis_beam fcn_mem0)) 1 0 = 0
   \<and> fcn_envelope (fcn_loop ex_fcn tdma ex_fcn_ops 1 (fcn_init ex_fcn axis_beam fcn_mem0)) 1 1 = 0
   \<and> fcn_envelope
        (fcn_step ex_fcn tdma ex_fcn_ops 1
          (fcn_loop ex_fcn tdma ex_fcn_ops 1 (fcn_init ex_fcn axis_beam fcn_mem0))) 0 0 = - \<i> / 2
   \<and> fcn_envelope
        (fcn_step ex_fcn tdma ex_fcn_ops 1
          (fcn_loop ex_fcn tdma ex_fcn_ops 1 (fcn_init ex_fcn axis_beam fcn_mem0))) 0 0 \<noteq> 0"
proof -
  have l0: "(0::nat) < 2" and l1: "(1::nat) < 2" by simp_all
  have two: "fcn_envelope
        (fcn_step ex_fcn tdma ex_fcn_ops 1
          (fcn_loop ex_fcn tdma ex_fcn_ops 1 (fcn_init ex_fcn axis_beam fcn_mem0))) 0 0 = - \<i> / 2"
    using ex_fcn_after_2 [OF l0] by (simp add: fcn_loop_Suc)
  show ?thesis
    using ex_fcn_after_1(1,2) [OF l0] ex_fcn_after_1(1,2) [OF l1] two
    by (simp add: ex_fcn_build)
qed

text \<open>
  C5, amended: for both schemes and every configuration, if the field is identically zero
  at step \<open>k\<close>, the solver returns the zero solution for a zero right-hand side, and
  either \<open>k = 0\<close> or the old generation of the nonlinear source (plane 0 of \<^verbatim>\<open>w_array\<close>, left
  by step \<open>k - 1\<close>) is identically zero, then the field produced at step \<open>k + 1\<close> is
  identically zero, and so are both source generations after the step.
\<close>

theorem zero_field_stays_zero:
  "((\<forall>i<N_RADI_NODES cfg. sp (left_cn_matrix_r ops) (N_RADI_NODES cfg) (\<lambda>i. 0) i = 0)
      \<and> (\<forall>l<N_TIME_NODES cfg. sp (left_cn_matrix_t ops) (N_TIME_NODES cfg) (\<lambda>l. 0) l = 0)
      \<and> (\<forall>i<N_RADI_NODES cfg. \<forall>l<N_TIME_NODES cfg. adi_envelope s i l = 0)
      \<and> (k = 0 \<or> (\<forall>i<N_RADI_NODES cfg. \<forall>l<N_TIME_NODES cfg. adi_state.w_array s i l 0 = 0))
    \<longrightarrow> (\<forall>i<N_RADI_NODES cfg. \<forall>l<N_TIME_NODES cfg.
           adi_envelope (adi_step cfg sp ops k s) i l = 0
         \<and> adi_state.w_array (adi_step cfg sp ops k s) i l 0 = 0
         \<and> adi_state.w_array (adi_step cfg sp ops k s) i l 1 = 0))
   \<and> ((\<forall>i<N_RADI_NODES cfg. sp (left_cn_matrix fops) (N_RADI_NODES cfg) (\<lambda>i. 0) i = 0)
      \<and> (\<forall>i<N_RADI_NODES cfg. \<forall>l<N_TIME_NODES cfg. fcn_envelope t i l = 0)
      \<and> (k = 0 \<or> (\<forall>i<N_RADI_NODES cfg. \<forall>l<N_TIME_NODES cfg. fcn_state.w_array t i l 0 = 0))
    \<longrightarrow> (\<forall>i<N_RADI_NODES cfg. \<forall>l<N_TIME_NODES cfg.
           fcn_envelope (fcn_step cfg sp fops k t) i l = 0
         \<and> fcn_state.w_array (fcn_step cfg sp fops k t) i l 0 = 0
         \<and> fcn_state.w_array (fcn_step cfg sp fops k t) i l 1 = 0))"
proof (intro conjI impI allI)
  fix i l
  assume h: "(\<forall>i<N_RADI_NODES cfg. sp (left_cn_matrix_r ops) (N_RADI_NODES cfg) (\<lambda>i. 0) i = 0)
      \<and> (\<forall>l<N_TIME_NODES cfg. sp (left_cn_matrix_t ops) (N_TIME_NODES cfg) (\<lambda>l. 0) l = 0)
      \<and> (\<forall>i<N_RADI_NODES cfg. \<forall>l<N_TIME_NODES cfg. adi_envelope s i l = 0)
      \<and> (k = 0 \<or> (\<forall>i<N_RADI_NODES cfg. \<forall>l<N_TIME_NODES cfg. adi_state.w_array s i l 0 = 0))"
    and i: "i < N_RADI_NODES cfg" and l: "l < N_TIME_NODES cfg"
  note Z = adi_zero_step [of cfg sp ops s k i l, OF _ _ _ _ i l]
  show "adi_envelope (adi_step cfg sp ops k s) i l = 0"
    using h by (intro Z(1)) simp_all
  show "adi_state.w_array (adi_step cfg sp ops k s) i l 0 = 0"
    using h by (intro Z(2)) simp_all
  show "adi_state.w_array (adi_step cfg sp ops k s) i l 1 = 0"
    using h by (intro Z(3)) simp_all
next
  fix i l
  assume h: "(\<forall>i<N_RADI_NODES cfg. sp (left_cn_matrix fops) (N_RADI_NODES cfg) (\<lambda>i. 0) i = 0)
      \<and> (\<forall>i<N_RADI_NODES cfg. \<forall>l<N_TIME_NODES cfg. fcn_envelope t i l = 0)
      \<and> (k = 0 \<or> (\<forall>i<N_RADI_NODES cfg. \<forall>l<N_TIME_NODES cfg. fcn_state.w_array t i l 0 = 0))"
    and i: "i < N_RADI_NODES cfg" and l: "l < N_TIME_NODES cfg"
  note Z = fcn_zero_step [of cfg sp fops t k i l, OF _ _ _ i l]
  show "fcn_envelope (fcn_step cfg sp fops k t) i l = 0"
    using h by (intro Z(1)) simp_all
  show "fcn_state.w_array (fcn_step cfg sp fops k t) i l 0 = 0"
    using h by (intro Z(2)) simp_all
  show "fcn_state.w_array (fcn_step cfg sp fops k t) i l 1 = 0"
    using h by (intro Z(3)) simp_all
qed

theorem zero_field_stays_zero_witness:
  "adi_envelope (adi_init ex_adi (\<lambda>i l. 0) adi_mem0) 0 0 = 0
   \<and> adi_state.w_array (adi_init ex_adi (\<lambda>i l. 0) adi_mem0) 0 0 0 = 0
   \<and> adi_envelope (adi_step ex_adi tdma ex_adi_ops 1 (adi_init ex_adi (\<lambda>i l. 0) adi_mem0)) 0 0 = 0
   \<and> adi_envelope (adi_step ex_adi tdma ex_adi_ops 1 (adi_init ex_adi (\<lambda>i l. 0) adi_mem0)) 1 1 = 0
   \<and> adi_state.w_array (adi_step ex_adi tdma ex_adi_ops 1 (adi_init ex_adi (\<lambda>i l. 0) adi_mem0)) 0 0 1 = 0
   \<and> fcn_envelope (fcn_step ex_adi tdma ex_fcn_ops 1 (fcn_init ex_adi (\<lambda>i l. 0) fcn_mem0)) 0 0 = 0
   \<and> fcn_envelope (fcn_step ex_adi tdma ex_fcn_ops 1 (fcn_init ex_adi (\<lambda>i l. 0) fcn_mem0)) 1 1 = 0
   \<and> fcn_state.w_array (fcn_step ex_adi tdma ex_fcn_ops 1 (fcn_init ex_adi (\<lambda>i l. 0) fcn_mem0)) 0 0 1 = 0"
proof -
  let ?s = "adi_init ex_adi (\<lambda>i l. 0) adi_mem0"
  let ?t = "fcn_init ex_adi (\<lambda>i l. 0) fcn_mem0"
  have ws: "adi_state.w_array ?s i l 0 = 0" for i l
    by (simp add: adi_init_def adi_mem0_def Let_def)
  have wt: "fcn_state.w_array ?t i l 0 = 0" for i l
    by (simp add: fcn_init_def fcn_mem0_def Let_def)
  note T = zero_field_stays_zero [of ex_adi tdma ex_adi_ops ?s 1 ex_fcn_ops ?t]
  have A: "\<forall>i<N_RADI_NODES ex_adi. \<forall>l<N_TIME_NODES ex_adi.
           adi_envelope (adi_step ex_adi tdma ex_adi_ops 1 ?s) i l = 0
         \<and> adi_state.w_array (adi_step ex_adi tdma ex_adi_ops 1 ?s) i l 0 = 0
         \<and> adi_state.w_array (adi_step ex_adi tdma ex_adi_ops 1 ?s) i l 1 = 0"
    by (rule T [THEN conjunct1, THEN mp]) (simp add: tdma_zero adi_init_envelope ws)
  have F: "\<forall>i<N_RADI_NODES ex_adi. \<forall>l<N_TIME_NODES ex_adi.
           fcn_envelope (fcn_step ex_adi tdma ex_fcn_ops 1 ?t) i l = 0
         \<and> fcn_state.w_array (fcn_step ex_adi tdma ex_fcn_ops 1 ?t) i l 0 = 0
         \<and> fcn_state.w_array (fcn_step ex_adi tdma ex_fcn_ops 1 ?t) i l 1 = 0"
    by (rule T [THEN conjunct2, THEN mp]) (simp add: tdma_zero fcn_init_envelope wt)
  have n: "(0::nat) < N_RADI_NODES ex_adi" "(1::nat) < N_RADI_NODES ex_adi"
    "(0::nat) < N_TIME_NODES ex_adi" "(1::nat) < N_TIME_NODES ex_adi"
    by simp_all
  show ?thesis
    using A F n by (simp add: adi_init_envelope ws)
qed


text \<open>
  C9. Every entry of \<^verbatim>\<open>fourier_coeff\<close> has modulus 1, and the spectral half-step (transform,
  multiply by \<^verbatim>\<open>fourier_coeff\<close>, transform back) preserves the sum of the squared moduli of
  a temporal line: for any line \<open>x\<close>, and for every row of the field in the loop of lines
  256--259.
\<close>

theorem spectral_half_step_lossless:
  "cmod (fourier_coeff cfg m) = 1
   \<and> (\<Sum>l<N_TIME_NODES cfg. (cmod (spectral_line cfg x l))\<^sup>2) = (\<Sum>l<N_TIME_NODES cfg. (cmod (x l))\<^sup>2)
   \<and> (i < N_RADI_NODES cfg \<longrightarrow>
        (\<Sum>l<N_TIME_NODES cfg. (cmod (fcn_state.b_array (fcn_half1 cfg s) i l))\<^sup>2)
          = (\<Sum>l<N_TIME_NODES cfg. (cmod (fcn_envelope s i l))\<^sup>2))"
proof (intro conjI impI)
  show "cmod (fourier_coeff cfg m) = 1"
    by (rule fourier_coeff_unit)
  show "(\<Sum>l<N_TIME_NODES cfg. (cmod (spectral_line cfg x l))\<^sup>2) = (\<Sum>l<N_TIME_NODES cfg. (cmod (x l))\<^sup>2)"
    by (rule spectral_line_energy)
  assume i: "i < N_RADI_NODES cfg"
  note A = fcn_half1_facts [of cfg "N_RADI_NODES cfg" s, folded fcn_half1_def]
  have "(\<Sum>l<N_TIME_NODES cfg. (cmod (fcn_state.b_array (fcn_half1 cfg s) i l))\<^sup>2)
      = (\<Sum>l<N_TIME_NODES cfg. (cmod (spectral_line cfg (row (N_TIME_NODES cfg) (fcn_envelope s) i) l))\<^sup>2)"
    using A i by (intro sum.cong refl) simp
  also have "\<dots> = (\<Sum>l<N_TIME_NODES cfg. (cmod (row (N_TIME_NODES cfg) (fcn_envelope s) i l))\<^sup>2)"
    by (rule spectral_line_energy)
  also have "\<dots> = (\<Sum>l<N_TIME_NODES cfg. (cmod (fcn_envelope s i l))\<^sup>2)"
    by (intro sum.cong refl) (simp add: row_def)
  finally show "(\<Sum>l<N_TIME_NODES cfg. (cmod (fcn_state.b_array (fcn_half1 cfg s) i l))\<^sup>2)
          = (\<Sum>l<N_TIME_NODES cfg. (cmod (fcn_envelope s i l))\<^sup>2)" .
qed

theorem spectral_half_step_lossless_witness:
  "(0::nat) < N_RADI_NODES ex_fcn
   \<and> cmod (fourier_coeff ex_fcn 1) = 1
   \<and> (\<Sum>l<N_TIME_NODES ex_fcn.
         (cmod (fcn_state.b_array (fcn_half1 ex_fcn (fcn_init ex_fcn axis_beam fcn_mem0)) 0 l))\<^sup>2) = 2"
proof -
  have a: "(0::nat) < N_RADI_NODES ex_fcn"
    by simp
  note T = spectral_half_step_lossless [of ex_fcn 1 "\<lambda>l. 0" 0 "fcn_init ex_fcn axis_beam fcn_mem0"]
  have "(\<Sum>l<N_TIME_NODES ex_fcn.
          (cmod (fcn_state.b_array (fcn_half1 ex_fcn (fcn_init ex_fcn axis_beam fcn_mem0)) 0 l))\<^sup>2)
      = (\<Sum>l<N_TIME_NODES ex_fcn. (cmod (fcn_envelope (fcn_init ex_fcn axis_beam fcn_mem0) 0 l))\<^sup>2)"
    using T a by blast
  also have "\<dots> = 2"
    by (simp add: fcn_init_envelope axis_beam_def numeral_2_eq_2)
  finally show ?thesis
    using T a by simp
qed


subsection \<open>Runs with a corrupted solve\<close>










end
